theory Spec2Isabelle
  imports Main "HOL-Library.Word"
begin

section \<open>The WebRTC transport of server/webrtctransport.go\<close>

text \<open>
  The transport keeps two registries of tracks keyed by SSRC, publishes track events and
  packets on three channels, counts packets in package-level Prometheus counters and talks
  to three collaborators: the pion engine (peer connection, tracks, senders, receivers,
  transceivers), the signaller and the logger.

  The engine is outside the repository. Every answer it gives during one call is read from
  an \<open>engine\<close> value that the call takes as a parameter; engine objects are pointers, and a
  pointer is modelled by a number (pointer equality is equality of numbers). The calls made
  on the signaller are recorded in order. Logging has no effect on the transport and is
  left out.

  The goroutines of a transport run beside each other: the callers of its methods, the
  callback of the engine, the pumps and the shutdown goroutine. The code of a goroutine is
  cut at the places where it can wait or where another goroutine can act on what it does
  next: the sends on the channels, the reads from the engine, the waits of the shutdown
  goroutine. Each part is a function on the state, and a run is an interleaving of parts.
\<close>

subsection \<open>Values\<close>

type_synonym uint32 = "32 word"

type_synonym ptr = nat

text \<open>pion's \<open>webrtc.RTPCodecType\<close>; its zero value is the unknown kind.\<close>

datatype RTPCodecType = RTPCodecTypeUnknown | RTPCodecTypeAudio | RTPCodecTypeVideo

datatype RTPTransceiverDirection =
    RTPTransceiverDirectionSendrecv
  | RTPTransceiverDirectionSendonly
  | RTPTransceiverDirectionRecvonly
  | RTPTransceiverDirectionInactive

text \<open>
  Of an \<open>rtp.Packet\<close> the transport reads the SSRC of the header and the marshalled size
  (a count of bytes).
\<close>

record rtp_Packet =
  SSRC :: uint32
  MarshalSize :: nat

datatype rtcp_Packet = RTCP "8 word list"

record TrackInfo =
  SSRC :: uint32
  ID :: string
  StreamID :: string
  Kind :: RTPCodecType
  Mid :: string

datatype TrackEventType = TrackEventTypeAdd | TrackEventTypeRemove

text \<open>\<open>TrackEvent\<close> embeds a \<open>TrackInfo\<close> and adds the type of the event.\<close>

record TrackEvent =
  EventTrackInfo :: TrackInfo
  EventType :: TrackEventType

text \<open>
  Go errors. \<open>ErrClosedPipe\<close> and \<open>EOF\<close> are the two values of package io that the
  transport compares with, \<open>EngineError\<close> is any other error of the engine,
  \<open>TrackNotFound ssrc\<close> is \<open>errors.Errorf("track %d not found", ssrc)\<close> and
  \<open>Annotated e msg\<close> is a non-nil error \<open>e\<close> wrapped by \<open>errors.Annotate\<close>. A Go value of
  type \<open>error\<close> is an \<open>err option\<close>, \<open>None\<close> being nil.
\<close>

datatype err =
    ErrClosedPipe
  | EOF
  | EngineError string
  | TrackNotFound uint32
  | Annotated err string

text \<open>\<open>errors.Annotate\<close> of juju/errors returns nil for a nil error.\<close>

fun Annotate :: "err option \<Rightarrow> string \<Rightarrow> err option" where
  "Annotate None msg = None"
| "Annotate (Some e) msg = Some (Annotated e msg)"

fun Cause :: "err \<Rightarrow> err" where
  "Cause (Annotated e msg) = Cause e"
| "Cause e = e"

text \<open>
  Modelled from the spec: \<open>errIs\<close> is a helper of this repository that is not in
  server/webrtctransport.go. The spec says that the engine signals a distinguished
  no-subscriber condition separately from hard errors: \<open>errIs err target\<close> holds when
  \<open>err\<close> is not nil and is \<open>target\<close>, annotations apart.
\<close>

definition errIs :: "err option \<Rightarrow> err \<Rightarrow> bool" where
  "errIs e target = (case e of None \<Rightarrow> False | Some x \<Rightarrow> Cause x = target)"

text \<open>
  The panics of the Go runtime that the transport can meet: calling \<open>Mid\<close> on a nil
  transceiver, and sending on a channel that was closed.
\<close>

datatype panic = NilPointerDereference | SendOnClosedChannel

subsection \<open>The engine and the signaller\<close>

text \<open>
  The answers of the engine and of the signaller during one call. \<open>Sender\<close> and
  \<open>Receiver\<close> of a transceiver may be nil, which is \<open>None\<close>. A Go result \<open>(x, err)\<close> is a
  sum, \<open>Inl\<close> the error.
\<close>

record engine =
  NewTrackLocalStaticRTP :: "string \<Rightarrow> string \<Rightarrow> string \<Rightarrow> err + ptr"
  TrackLocal_ID :: "ptr \<Rightarrow> string"
  TrackLocal_StreamID :: "ptr \<Rightarrow> string"
  TrackLocal_Kind :: "ptr \<Rightarrow> RTPCodecType"
  TrackLocal_WriteRTP :: "ptr \<Rightarrow> rtp_Packet \<Rightarrow> err option"
  PeerConnection_AddTrack :: "ptr \<Rightarrow> err + ptr"
  PeerConnection_RemoveTrack :: "ptr \<Rightarrow> err option"
  PeerConnection_WriteRTCP :: "rtcp_Packet list \<Rightarrow> err option"
  PeerConnection_GetTransceivers :: "ptr list"
  Transceiver_Sender :: "ptr \<Rightarrow> ptr option"
  Transceiver_Receiver :: "ptr \<Rightarrow> ptr option"
  Transceiver_Mid :: "ptr \<Rightarrow> string"
  TrackRemote_SSRC :: "ptr \<Rightarrow> uint32"
  TrackRemote_ID :: "ptr \<Rightarrow> string"
  TrackRemote_StreamID :: "ptr \<Rightarrow> string"
  TrackRemote_Kind :: "ptr \<Rightarrow> RTPCodecType"
  Signaller_Initiator :: bool

datatype signaller_call =
    Negotiate
  | SendTransceiverRequest RTPCodecType RTPTransceiverDirection

definition MimeTypeVP8 :: string where
  "MimeTypeVP8 = ''video/VP8''"

subsection \<open>The transport\<close>

record localTrackInfo =
  trackInfo :: TrackInfo
  transceiver :: "ptr option"
  sender :: ptr
  track :: ptr

record remoteTrackInfo =
  trackInfo :: TrackInfo
  transceiver :: "ptr option"
  receiver :: ptr
  track :: ptr

text \<open>
  A goroutine started by the transport and still running, with the variables its closure
  captured and the place where it stands. The feedback pump of \<open>AddTrack\<close> holds the
  sender; it is in \<open>sender.ReadRTCP\<close> (line 406), or at the send of line 414 with the
  packet to send and the packets of the same read that follow it. The receive pump of
  \<open>handleTrack\<close> holds the track info, the remote track and the start time; it is in
  \<open>track.ReadRTP\<close> (line 541), at the send of line 558 with the packet to send, or,
  its loop left, at the send of line 529 in its deferred function.
\<close>

datatype goroutine =
    FeedbackPump ptr
  | FeedbackSend ptr rtcp_Packet "rtcp_Packet list"
  | ReceivePump TrackInfo ptr int
  | ReceiveSend TrackInfo ptr int rtp_Packet
  | ReceiveExit TrackInfo ptr int

text \<open>
  A call of \<open>handleTrack\<close> by the engine that has not returned. The engine runs the
  callback on a goroutine of its own, which the wait group does not count. The call is at
  the send of line 519, or past it and before \<open>wg.Add(1)\<close> of line 524; it holds the
  track info, the remote track and the start time.
\<close>

datatype callback =
    HandleTrackSend TrackInfo ptr int
  | HandleTrackAdd TrackInfo ptr int

text \<open>
  The place of the goroutine that \<open>NewWebRTCTransport\<close> starts (lines 284 to 293): it
  waits for the close channel of the signaller, waits for the wait group, closes the data
  transceiver and then the three channels, one after the other.
\<close>

datatype shutdown_point =
    AwaitClose
  | AwaitWaitGroup
  | CloseDataTransceiver
  | CloseRTP
  | CloseRTCP
  | CloseTrackEvents
  | ShutdownDone

text \<open>
  Modelled from the spec: the Prometheus metrics are package-level variables declared
  outside server/webrtctransport.go. The spec describes them as counts and byte totals
  of the packets sent and received, the total and the currently active tracks, and a
  histogram of durations sampled when a remote track ends; they are driven by increment,
  add and observe and never affect control flow. A counter is an exact number here, and
  the histogram keeps its observations, in nanoseconds.
\<close>

record metrics =
  prometheusRTPPacketsSent :: int
  prometheusRTPPacketsSentBytes :: int
  prometheusRTPPacketsReceived :: int
  prometheusRTPPacketsReceivedBytes :: int
  prometheusRTCPPacketsSent :: int
  prometheusRTCPPacketsReceived :: int
  prometheusWebRTCTracksTotal :: int
  prometheusWebRTCTracksActive :: int
  prometheusWebRTCTracksDuration :: "int list"

text \<open>
  The state that the goroutines of a transport work on: the metrics of the process and,
  added to them, the fields of \<open>WebRTCTransport\<close> that the code reads and writes, the
  pump goroutines that are running, the calls of \<open>handleTrack\<close> that have not returned,
  the place of the shutdown goroutine and the calls made on the signaller. \<open>wg\<close> is the
  counter of the wait group.

  A channel is unbuffered. It is modelled by the values sent on it so far, in order, and
  by whether it was closed. A send is a place of its goroutine: the goroutine stays there
  as long as no consumer takes the value, the send completes when one does, and it panics
  when the channel was closed. An unrecovered panic ends the process: \<open>crashed\<close> holds
  the panic, and nothing moves any more.

  \<open>closeCh\<close> tells whether the close channel of the signaller was closed.
\<close>

record WebRTCTransport = metrics +
  clientID :: string
  wg :: int
  trackEventsCh :: "TrackEvent list"
  rtpCh :: "rtp_Packet list"
  rtcpCh :: "rtcp_Packet list"
  localTracks :: "uint32 \<rightharpoonup> localTrackInfo"
  remoteTracks :: "uint32 \<rightharpoonup> remoteTrackInfo"
  goroutines :: "goroutine list"
  signaller :: "signaller_call list"
  callbacks :: "callback list"
  shutdown :: shutdown_point
  closeCh :: bool
  dataTransceiverClosed :: bool
  rtpChClosed :: bool
  rtcpChClosed :: bool
  trackEventsChClosed :: bool
  crashed :: "panic option"

text \<open>
  The transport that \<open>NewWebRTCTransport\<close> returns when the data channel and the
  signaller were created: empty registries, open channels on which nothing was sent, no
  pump, no callback, and the shutdown goroutine started, waiting for the close channel.
  The metrics are shared by all transports of the process and have any value.
\<close>

definition NewWebRTCTransport :: "WebRTCTransport \<Rightarrow> bool" where
  "NewWebRTCTransport p \<longleftrightarrow>
     wg p = 0 \<and> trackEventsCh p = [] \<and> rtpCh p = [] \<and> rtcpCh p = [] \<and>
     localTracks p = Map.empty \<and> remoteTracks p = Map.empty \<and>
     goroutines p = [] \<and> signaller p = [] \<and> callbacks p = [] \<and>
     shutdown p = AwaitClose \<and> \<not> closeCh p \<and> \<not> dataTransceiverClosed p \<and>
     \<not> rtpChClosed p \<and> \<not> rtcpChClosed p \<and> \<not> trackEventsChClosed p \<and>
     crashed p = None"

text \<open>
  The shutdown goroutine, one statement at a time. Where it waits and the condition does
  not hold, it stays.
\<close>

definition shutdownStep :: "WebRTCTransport \<Rightarrow> WebRTCTransport" where
  "shutdownStep p =
     (case shutdown p of
        AwaitClose \<Rightarrow> if closeCh p then p\<lparr>shutdown := AwaitWaitGroup\<rparr> else p
      | AwaitWaitGroup \<Rightarrow> if wg p = 0 then p\<lparr>shutdown := CloseDataTransceiver\<rparr> else p
      | CloseDataTransceiver \<Rightarrow> p\<lparr>dataTransceiverClosed := True, shutdown := CloseRTP\<rparr>
      | CloseRTP \<Rightarrow> p\<lparr>rtpChClosed := True, shutdown := CloseRTCP\<rparr>
      | CloseRTCP \<Rightarrow> p\<lparr>rtcpChClosed := True, shutdown := CloseTrackEvents\<rparr>
      | CloseTrackEvents \<Rightarrow> p\<lparr>trackEventsChClosed := True, shutdown := ShutdownDone\<rparr>
      | ShutdownDone \<Rightarrow> p)"

text \<open>
  Modelled from the spec: the signaller is declared outside server/webrtctransport.go.
  The spec gives it a one-shot close-notification channel, the sole trigger of the
  shutdown; it fires when the session is closed, by \<open>Close\<close> of the transport, which
  only calls \<open>Close\<close> of the signaller, or by the signaller itself.
\<close>

definition signallerCloses :: "WebRTCTransport \<Rightarrow> WebRTCTransport" where
  "signallerCloses p = p\<lparr>closeCh := True\<rparr>"

subsection \<open>Writing packets\<close>

definition WriteRTCP ::
  "engine \<Rightarrow> WebRTCTransport \<Rightarrow> rtcp_Packet list \<Rightarrow> WebRTCTransport \<times> err option" where
  "WriteRTCP eng p packets =
     (let err = PeerConnection_WriteRTCP eng packets;
          p1 = (if err = None
                then p\<lparr>prometheusRTCPPacketsSent := prometheusRTCPPacketsSent p + 1\<rparr>
                else p)
      in (p1, Annotate err ''write rtcp''))"

definition WriteRTP ::
  "engine \<Rightarrow> WebRTCTransport \<Rightarrow> rtp_Packet \<Rightarrow> WebRTCTransport \<times> int \<times> err option" where
  "WriteRTP eng p packet =
     (case localTracks p (rtp_Packet.SSRC packet) of
        None \<Rightarrow> (p, 0, Some (TrackNotFound (rtp_Packet.SSRC packet)))
      | Some pta \<Rightarrow>
          (let err = TrackLocal_WriteRTP eng (localTrackInfo.track pta) packet
           in if errIs err ErrClosedPipe then (p, 0, None)
              else if err \<noteq> None then (p, 0, Annotate err ''write rtp'')
              else (p\<lparr>prometheusRTPPacketsSent := prometheusRTPPacketsSent p + 1,
                      prometheusRTPPacketsSentBytes :=
                        prometheusRTPPacketsSentBytes p + int (MarshalSize packet)\<rparr>,
                    int (MarshalSize packet), None)))"

subsection \<open>Local tracks\<close>

definition RemoveTrack ::
  "engine \<Rightarrow> WebRTCTransport \<Rightarrow> uint32 \<Rightarrow> WebRTCTransport \<times> err option" where
  "RemoveTrack eng p ssrc =
     (case localTracks p ssrc of
        None \<Rightarrow> (p, Some (TrackNotFound ssrc))
      | Some pta \<Rightarrow>
          (let p1 = p\<lparr>localTracks := (localTracks p)(ssrc := None)\<rparr>;
               err = PeerConnection_RemoveTrack eng (sender pta)
           in if err \<noteq> None then (p1, Annotate err ''remove track'')
              else (p1\<lparr>signaller := signaller p1 @ [Negotiate]\<rparr>, None)))"

definition AddTrack ::
  "engine \<Rightarrow> WebRTCTransport \<Rightarrow> uint32 \<Rightarrow> string \<Rightarrow> string \<Rightarrow> WebRTCTransport \<times> err option"
  where
  "AddTrack eng p ssrc id' streamId =
     (case NewTrackLocalStaticRTP eng MimeTypeVP8 id' streamId of
        Inl err \<Rightarrow> (p, Annotate (Some err) ''new track'')
      | Inr track' \<Rightarrow>
          (case PeerConnection_AddTrack eng track' of
             Inl err \<Rightarrow> (p, Annotate (Some err) ''add track'')
           | Inr sender' \<Rightarrow>
               (let p1 = p\<lparr>signaller := signaller p @
                            [if Signaller_Initiator eng then Negotiate
                             else SendTransceiverRequest (TrackLocal_Kind eng track')
                                    RTPTransceiverDirectionRecvonly]\<rparr>;
                    p2 = p1\<lparr>wg := wg p1 + 1\<rparr>;
                    p3 = p2\<lparr>goroutines := goroutines p2 @ [FeedbackPump sender']\<rparr>;
                    transceiver' =
                      find (\<lambda>tr. Transceiver_Sender eng tr = Some sender')
                        (PeerConnection_GetTransceivers eng);
                    trackInfo' = \<lparr>TrackInfo.SSRC = ssrc, ID = TrackLocal_ID eng track',
                                 StreamID = TrackLocal_StreamID eng track',
                                 Kind = TrackLocal_Kind eng track', Mid = ''''\<rparr>
                in (p3\<lparr>localTracks := (localTracks p3)(ssrc \<mapsto>
                         \<lparr>localTrackInfo.trackInfo = trackInfo',
                          localTrackInfo.transceiver = transceiver',
                          sender = sender',
                          localTrackInfo.track = track'\<rparr>)\<rparr>, None))))"

text \<open>
  The feedback pump that \<open>AddTrack\<close> starts, from one place to the next.

  \<open>feedbackRead\<close> is the pump in \<open>sender.ReadRTCP\<close> getting the result \<open>res\<close>
  (lines 406 to 413): at an error it returns and the deferred \<open>wg.Done\<close> runs; with
  packets it counts the first and stands at its send.

  \<open>feedbackSend\<close> is the send of line 414: it panics when the RTCP channel was closed;
  when it completes, the pump counts the next packet of the read and stands at its send,
  or, with no packet left, goes back to \<open>sender.ReadRTCP\<close>.
\<close>

definition feedbackRead ::
  "WebRTCTransport \<Rightarrow> ptr \<Rightarrow> err + rtcp_Packet list \<Rightarrow> WebRTCTransport" where
  "feedbackRead p sender' res =
     (case res of
        Inl err \<Rightarrow>
          p\<lparr>wg := wg p - 1, goroutines := remove1 (FeedbackPump sender') (goroutines p)\<rparr>
      | Inr [] \<Rightarrow> p
      | Inr (rtcpPacket # rest) \<Rightarrow>
          p\<lparr>prometheusRTCPPacketsReceived := prometheusRTCPPacketsReceived p + 1,
            goroutines := remove1 (FeedbackPump sender') (goroutines p) @
              [FeedbackSend sender' rtcpPacket rest]\<rparr>)"

definition feedbackSend ::
  "WebRTCTransport \<Rightarrow> ptr \<Rightarrow> rtcp_Packet \<Rightarrow> rtcp_Packet list \<Rightarrow> WebRTCTransport" where
  "feedbackSend p sender' rtcpPacket rest =
     (if rtcpChClosed p then p\<lparr>crashed := Some SendOnClosedChannel\<rparr>
      else
        (let p1 = p\<lparr>rtcpCh := rtcpCh p @ [rtcpPacket]\<rparr>
         in case rest of
              [] \<Rightarrow>
                p1\<lparr>goroutines :=
                     remove1 (FeedbackSend sender' rtcpPacket rest) (goroutines p1) @
                       [FeedbackPump sender']\<rparr>
            | rtcpPacket' # rest' \<Rightarrow>
                p1\<lparr>prometheusRTCPPacketsReceived := prometheusRTCPPacketsReceived p1 + 1,
                   goroutines :=
                     remove1 (FeedbackSend sender' rtcpPacket rest) (goroutines p1) @
                       [FeedbackSend sender' rtcpPacket' rest']\<rparr>))"

subsection \<open>Remote tracks\<close>

definition addRemoteTrack :: "WebRTCTransport \<Rightarrow> remoteTrackInfo \<Rightarrow> WebRTCTransport" where
  "addRemoteTrack p rti =
     p\<lparr>remoteTracks := (remoteTracks p)(TrackInfo.SSRC (remoteTrackInfo.trackInfo rti) \<mapsto> rti)\<rparr>"

definition removeRemoteTrack :: "WebRTCTransport \<Rightarrow> uint32 \<Rightarrow> WebRTCTransport" where
  "removeRemoteTrack p ssrc = p\<lparr>remoteTracks := (remoteTracks p)(ssrc := None)\<rparr>"

text \<open>
  \<open>handleTrack\<close> is the callback of the engine for a new remote track; \<open>start\<close> is the
  time it reads from the clock. It is cut where another goroutine can run in between with
  an effect on it: at the send of line 519 and at \<open>wg.Add(1)\<close> of line 524.

  \<open>handleTrack_trackInfo\<close> is the track info of lines 491 to 497.

  \<open>handleTrack_register\<close> is lines 491 to 518: it counts the track, looks for its
  transceiver and registers it; the call then stands at the send of line 519.

  \<open>handleTrack_send\<close> is the send of line 519, of the event of type
  \<open>TrackEventTypeAdd\<close>: it panics when the channel of track events was closed; when
  it completes the call is past its send.

  \<open>handleTrack_go\<close> is lines 524 to 526: one more in the wait group, and the receive
  pump is started.
\<close>

definition handleTrack_trackInfo :: "engine \<Rightarrow> ptr \<Rightarrow> TrackInfo" where
  "handleTrack_trackInfo eng track' =
     \<lparr>TrackInfo.SSRC = TrackRemote_SSRC eng track',
      ID = TrackRemote_ID eng track',
      StreamID = TrackRemote_StreamID eng track',
      Kind = TrackRemote_Kind eng track', Mid = ''''\<rparr>"

definition handleTrack_register ::
  "engine \<Rightarrow> WebRTCTransport \<Rightarrow> ptr \<Rightarrow> ptr \<Rightarrow> int \<Rightarrow> WebRTCTransport" where
  "handleTrack_register eng p track' receiver' start =
     (let trackInfo' = handleTrack_trackInfo eng track';
          p1 = p\<lparr>prometheusWebRTCTracksTotal := prometheusWebRTCTracksTotal p + 1,
                 prometheusWebRTCTracksActive := prometheusWebRTCTracksActive p + 1\<rparr>;
          transceiver' =
            find (\<lambda>tr. Transceiver_Receiver eng tr = Some receiver')
              (PeerConnection_GetTransceivers eng);
          rti = \<lparr>remoteTrackInfo.trackInfo = trackInfo',
                 remoteTrackInfo.transceiver = transceiver',
                 receiver = receiver',
                 remoteTrackInfo.track = track'\<rparr>;
          p2 = addRemoteTrack p1 rti
      in p2\<lparr>callbacks := callbacks p2 @ [HandleTrackSend trackInfo' track' start]\<rparr>)"

definition handleTrack_send ::
  "WebRTCTransport \<Rightarrow> TrackInfo \<Rightarrow> ptr \<Rightarrow> int \<Rightarrow> WebRTCTransport" where
  "handleTrack_send p trackInfo' track' start =
     (if trackEventsChClosed p then p\<lparr>crashed := Some SendOnClosedChannel\<rparr>
      else p\<lparr>trackEventsCh := trackEventsCh p @
                 [\<lparr>EventTrackInfo = trackInfo', EventType = TrackEventTypeAdd\<rparr>],
             callbacks :=
               remove1 (HandleTrackSend trackInfo' track' start) (callbacks p) @
                 [HandleTrackAdd trackInfo' track' start]\<rparr>)"

definition handleTrack_go ::
  "WebRTCTransport \<Rightarrow> TrackInfo \<Rightarrow> ptr \<Rightarrow> int \<Rightarrow> WebRTCTransport" where
  "handleTrack_go p trackInfo' track' start =
     (let p1 = p\<lparr>wg := wg p + 1\<rparr>;
          p2 = p1\<lparr>goroutines := goroutines p1 @ [ReceivePump trackInfo' track' start]\<rparr>
      in p2\<lparr>callbacks := remove1 (HandleTrackAdd trackInfo' track' start) (callbacks p2)\<rparr>)"

text \<open>
  The whole callback, when no other goroutine runs before it returns and a consumer
  takes the event.
\<close>

definition handleTrack ::
  "engine \<Rightarrow> WebRTCTransport \<Rightarrow> ptr \<Rightarrow> ptr \<Rightarrow> int \<Rightarrow> WebRTCTransport" where
  "handleTrack eng p track' receiver' start =
     (let trackInfo' = handleTrack_trackInfo eng track';
          p1 = handleTrack_register eng p track' receiver' start;
          p2 = handleTrack_send p1 trackInfo' track' start
      in if crashed p2 \<noteq> None then p2 else handleTrack_go p2 trackInfo' track' start)"

text \<open>
  The receive pump that \<open>handleTrack\<close> starts, from one place to the next.

  \<open>receiveRead\<close> is the pump in \<open>track.ReadRTP\<close> getting the result \<open>res\<close> (lines 541
  to 557). With a packet it counts the packet and its bytes and stands at the send of
  line 558. At an error, \<open>io.EOF\<close> or any other (which is only logged), the loop is
  left and the deferred function begins: it removes the track from the registry (line
  528) and stands at the send of line 529.

  \<open>receiveSend\<close> is the send of line 558: it panics when the RTP channel was closed;
  when it completes the pump is back in \<open>track.ReadRTP\<close>.

  \<open>receiveDeferred\<close> is the deferred function from the send of line 529 on: the send of
  the event of type \<open>TrackEventTypeRemove\<close> panics when the channel of track events was
  closed; once it has completed, \<open>wg.Done\<close>, the gauge of active tracks and the
  histogram of durations follow, \<open>now\<close> being the clock read by \<open>time.Since\<close>, and
  the goroutine is gone.
\<close>

definition receiveRead ::
  "WebRTCTransport \<Rightarrow> TrackInfo \<Rightarrow> ptr \<Rightarrow> int \<Rightarrow> err + rtp_Packet \<Rightarrow> WebRTCTransport"
  where
  "receiveRead p trackInfo' track' start res =
     (case res of
        Inl err \<Rightarrow>
          (let p1 = removeRemoteTrack p (TrackInfo.SSRC trackInfo')
           in p1\<lparr>goroutines :=
                   remove1 (ReceivePump trackInfo' track' start) (goroutines p1) @
                     [ReceiveExit trackInfo' track' start]\<rparr>)
      | Inr pkt \<Rightarrow>
          p\<lparr>prometheusRTPPacketsReceived := prometheusRTPPacketsReceived p + 1,
            prometheusRTPPacketsReceivedBytes :=
              prometheusRTPPacketsReceivedBytes p + int (MarshalSize pkt),
            goroutines :=
              remove1 (ReceivePump trackInfo' track' start) (goroutines p) @
                [ReceiveSend trackInfo' track' start pkt]\<rparr>)"

definition receiveSend ::
  "WebRTCTransport \<Rightarrow> TrackInfo \<Rightarrow> ptr \<Rightarrow> int \<Rightarrow> rtp_Packet \<Rightarrow> WebRTCTransport" where
  "receiveSend p trackInfo' track' start pkt =
     (if rtpChClosed p then p\<lparr>crashed := Some SendOnClosedChannel\<rparr>
      else p\<lparr>rtpCh := rtpCh p @ [pkt],
             goroutines :=
               remove1 (ReceiveSend trackInfo' track' start pkt) (goroutines p) @
                 [ReceivePump trackInfo' track' start]\<rparr>)"

definition receiveDeferred ::
  "WebRTCTransport \<Rightarrow> TrackInfo \<Rightarrow> ptr \<Rightarrow> int \<Rightarrow> int \<Rightarrow> WebRTCTransport" where
  "receiveDeferred p trackInfo' track' start now =
     (if trackEventsChClosed p then p\<lparr>crashed := Some SendOnClosedChannel\<rparr>
      else
        (let p1 = p\<lparr>trackEventsCh := trackEventsCh p @
                      [\<lparr>EventTrackInfo = trackInfo', EventType = TrackEventTypeRemove\<rparr>]\<rparr>;
             p2 = p1\<lparr>wg := wg p1 - 1\<rparr>;
             p3 = p2\<lparr>prometheusWebRTCTracksActive := prometheusWebRTCTracksActive p2 - 1,
                    prometheusWebRTCTracksDuration :=
                      prometheusWebRTCTracksDuration p2 @ [now - start]\<rparr>
         in p3\<lparr>goroutines :=
                 remove1 (ReceiveExit trackInfo' track' start) (goroutines p3)\<rparr>))"

subsection \<open>Listing tracks\<close>

text \<open>
  Go visits the keys of a map in an order that is not specified: \<open>keys\<close> is the order of
  one visit. Calling \<open>Mid\<close> on the nil transceiver of an entry dereferences nil.
\<close>

fun rangeLocalTracks ::
  "engine \<Rightarrow> (uint32 \<rightharpoonup> localTrackInfo) \<Rightarrow> uint32 list \<Rightarrow> TrackInfo list \<Rightarrow>
     panic + TrackInfo list" where
  "rangeLocalTracks eng m [] list = Inr list"
| "rangeLocalTracks eng m (k # keys) list =
     (case m k of
        None \<Rightarrow> rangeLocalTracks eng m keys list
      | Some lti \<Rightarrow>
          (case localTrackInfo.transceiver lti of
             None \<Rightarrow> Inl NilPointerDereference
           | Some tr \<Rightarrow>
               rangeLocalTracks eng m keys
                 (list @ [(localTrackInfo.trackInfo lti)\<lparr>Mid := Transceiver_Mid eng tr\<rparr>])))"

definition LocalTracks ::
  "engine \<Rightarrow> WebRTCTransport \<Rightarrow> uint32 list \<Rightarrow> panic + TrackInfo list" where
  "LocalTracks eng p keys = rangeLocalTracks eng (localTracks p) keys []"

fun rangeRemoteTracks ::
  "engine \<Rightarrow> (uint32 \<rightharpoonup> remoteTrackInfo) \<Rightarrow> uint32 list \<Rightarrow> TrackInfo list \<Rightarrow>
     panic + TrackInfo list" where
  "rangeRemoteTracks eng m [] list = Inr list"
| "rangeRemoteTracks eng m (k # keys) list =
     (case m k of
        None \<Rightarrow> rangeRemoteTracks eng m keys list
      | Some rti \<Rightarrow>
          (case remoteTrackInfo.transceiver rti of
             None \<Rightarrow> Inl NilPointerDereference
           | Some tr \<Rightarrow>
               rangeRemoteTracks eng m keys
                 (list @ [(remoteTrackInfo.trackInfo rti)\<lparr>Mid := Transceiver_Mid eng tr\<rparr>])))"

definition RemoteTracks ::
  "engine \<Rightarrow> WebRTCTransport \<Rightarrow> uint32 list \<Rightarrow> panic + TrackInfo list" where
  "RemoteTracks eng p keys = rangeRemoteTracks eng (remoteTracks p) keys []"

subsection \<open>Runs of the transport\<close>

text \<open>
  One move of a transport that has not crashed: a call of one of its methods, with any
  answers of the engine; the engine calling \<open>handleTrack\<close>, and a call of it that has
  not returned going on from the place where it stands; a pump going on from the place
  where it stands, with any result of its read; the signaller closing its close channel;
  one statement of the shutdown goroutine. A goroutine at a send may stay there. A run
  starts from a new transport.
\<close>

inductive step :: "WebRTCTransport \<Rightarrow> WebRTCTransport \<Rightarrow> bool" where
  WriteRTCP: "crashed p = None \<Longrightarrow> step p (fst (WriteRTCP eng p packets))"
| WriteRTP: "crashed p = None \<Longrightarrow> step p (fst (WriteRTP eng p packet))"
| RemoveTrack: "crashed p = None \<Longrightarrow> step p (fst (RemoveTrack eng p ssrc))"
| AddTrack: "crashed p = None \<Longrightarrow> step p (fst (AddTrack eng p ssrc id' streamId))"
| feedbackRead:
    "crashed p = None \<Longrightarrow> FeedbackPump sender' \<in> set (goroutines p) \<Longrightarrow>
     step p (feedbackRead p sender' res)"
| feedbackSend:
    "crashed p = None \<Longrightarrow> FeedbackSend sender' rtcpPacket rest \<in> set (goroutines p) \<Longrightarrow>
     step p (feedbackSend p sender' rtcpPacket rest)"
| handleTrack_register:
    "crashed p = None \<Longrightarrow> step p (handleTrack_register eng p track' receiver' start)"
| handleTrack_send:
    "crashed p = None \<Longrightarrow> HandleTrackSend trackInfo' track' start \<in> set (callbacks p) \<Longrightarrow>
     step p (handleTrack_send p trackInfo' track' start)"
| handleTrack_go:
    "crashed p = None \<Longrightarrow> HandleTrackAdd trackInfo' track' start \<in> set (callbacks p) \<Longrightarrow>
     step p (handleTrack_go p trackInfo' track' start)"
| receiveRead:
    "crashed p = None \<Longrightarrow> ReceivePump trackInfo' track' start \<in> set (goroutines p) \<Longrightarrow>
     step p (receiveRead p trackInfo' track' start res')"
| receiveSend:
    "crashed p = None \<Longrightarrow> ReceiveSend trackInfo' track' start pkt \<in> set (goroutines p) \<Longrightarrow>
     step p (receiveSend p trackInfo' track' start pkt)"
| receiveDeferred:
    "crashed p = None \<Longrightarrow> ReceiveExit trackInfo' track' start \<in> set (goroutines p) \<Longrightarrow>
     step p (receiveDeferred p trackInfo' track' start now)"
| signallerCloses: "crashed p = None \<Longrightarrow> step p (signallerCloses p)"
| shutdownStep: "crashed p = None \<Longrightarrow> step p (shutdownStep p)"

inductive reachable :: "WebRTCTransport \<Rightarrow> bool" where
  init: "NewWebRTCTransport p \<Longrightarrow> reachable p"
| step: "reachable p \<Longrightarrow> step p p' \<Longrightarrow> reachable p'"

subsection \<open>Counting events, pumps and callbacks\<close>

text \<open>
  \<open>published ty ti evs\<close> is the number of events of type \<open>ty\<close> for the track info
  \<open>ti\<close> among the events \<open>evs\<close>; \<open>running ti gs\<close> is the number of receive pumps for
  \<open>ti\<close> among the goroutines \<open>gs\<close>, wherever they stand; \<open>starting ti cs\<close> is the
  number of calls of \<open>handleTrack\<close> for \<open>ti\<close> among \<open>cs\<close> that are past their send and
  have not started their pump.
\<close>

definition published :: "TrackEventType \<Rightarrow> TrackInfo \<Rightarrow> TrackEvent list \<Rightarrow> nat" where
  "published ty ti evs = count_list evs \<lparr>EventTrackInfo = ti, EventType = ty\<rparr>"

fun pumpInfo :: "goroutine \<Rightarrow> TrackInfo option" where
  "pumpInfo (ReceivePump ti t s) = Some ti"
| "pumpInfo (ReceiveSend ti t s pkt) = Some ti"
| "pumpInfo (ReceiveExit ti t s) = Some ti"
| "pumpInfo (FeedbackPump s) = None"
| "pumpInfo (FeedbackSend s pkt rest) = None"

definition running :: "TrackInfo \<Rightarrow> goroutine list \<Rightarrow> nat" where
  "running ti gs = length (filter (\<lambda>g. pumpInfo g = Some ti) gs)"

fun callbackInfo :: "callback \<Rightarrow> TrackInfo" where
  "callbackInfo (HandleTrackSend ti t s) = ti"
| "callbackInfo (HandleTrackAdd ti t s) = ti"

fun pastSend :: "callback \<Rightarrow> bool" where
  "pastSend (HandleTrackSend ti t s) = False"
| "pastSend (HandleTrackAdd ti t s) = True"

definition starting :: "TrackInfo \<Rightarrow> callback list \<Rightarrow> nat" where
  "starting ti cs = length (filter (\<lambda>c. pastSend c \<and> callbackInfo c = ti) cs)"

subsection \<open>A simulated engine\<close>

text \<open>
  An engine whose calls all succeed: every new local track is the object 1 with id "v0"
  and stream "s0", its sender is the object 2 of the transceiver 3, and a write finds a
  subscriber. The remote track 5 has the SSRC 2002 and the receiver 6, of the
  transceiver 4.
\<close>

definition simEngine :: engine where
  "simEngine =
     \<lparr>NewTrackLocalStaticRTP = (\<lambda>mime id' streamId. Inr 1),
      TrackLocal_ID = (\<lambda>t. ''v0''),
      TrackLocal_StreamID = (\<lambda>t. ''s0''),
      TrackLocal_Kind = (\<lambda>t. RTPCodecTypeVideo),
      TrackLocal_WriteRTP = (\<lambda>t packet. None),
      PeerConnection_AddTrack = (\<lambda>t. Inr 2),
      PeerConnection_RemoveTrack = (\<lambda>s. None),
      PeerConnection_WriteRTCP = (\<lambda>packets. None),
      PeerConnection_GetTransceivers = [3, 4],
      Transceiver_Sender = (\<lambda>tr. if tr = 3 then Some 2 else None),
      Transceiver_Receiver = (\<lambda>tr. if tr = 4 then Some 6 else None),
      Transceiver_Mid = (\<lambda>tr. if tr = 3 then ''0'' else ''1''),
      TrackRemote_SSRC = (\<lambda>t. 2002),
      TrackRemote_ID = (\<lambda>t. ''a0''),
      TrackRemote_StreamID = (\<lambda>t. ''r0''),
      TrackRemote_Kind = (\<lambda>t. RTPCodecTypeAudio),
      Signaller_Initiator = True\<rparr>"

text \<open>A new transport for the client "c1", all metrics at 0.\<close>

definition newTransport :: WebRTCTransport where
  "newTransport =
     \<lparr>prometheusRTPPacketsSent = 0, prometheusRTPPacketsSentBytes = 0,
      prometheusRTPPacketsReceived = 0, prometheusRTPPacketsReceivedBytes = 0,
      prometheusRTCPPacketsSent = 0, prometheusRTCPPacketsReceived = 0,
      prometheusWebRTCTracksTotal = 0, prometheusWebRTCTracksActive = 0,
      prometheusWebRTCTracksDuration = [],
      clientID = ''c1'', wg = 0, trackEventsCh = [], rtpCh = [], rtcpCh = [],
      localTracks = Map.empty, remoteTracks = Map.empty, goroutines = [], signaller = [],
      callbacks = [], shutdown = AwaitClose, closeCh = False, dataTransceiverClosed = False,
      rtpChClosed = False, rtcpChClosed = False, trackEventsChClosed = False,
      crashed = None\<rparr>"

text \<open>The transport after the local track 1001 with id "v0" and stream "s0" was added.\<close>

definition oneTrack :: WebRTCTransport where
  "oneTrack = fst (AddTrack simEngine newTransport 1001 ''v0'' ''s0'')"

text \<open>The track info that \<open>handleTrack\<close> builds for the remote track of this engine.\<close>

definition remoteInfo :: TrackInfo where
  "remoteInfo =
     \<lparr>TrackInfo.SSRC = 2002, ID = ''a0'', StreamID = ''r0'', Kind = RTPCodecTypeAudio,
      Mid = ''''\<rparr>"

text \<open>
  A remote track from its delivery to its end, on the transport with one local track and
  with a consumer on every channel: the engine calls \<open>handleTrack\<close> at time 10
  (\<open>delivered\<close>, the call at its send), the send completes (\<open>announced\<close>), the pump is
  started (\<open>pumping\<close>), reads one packet and sends it, reads the end of the stream, and
  its deferred function runs at time 25 (\<open>trackEnded\<close>).
\<close>

definition delivered :: WebRTCTransport where
  "delivered = handleTrack_register simEngine oneTrack 5 6 10"

definition announced :: WebRTCTransport where
  "announced = handleTrack_send delivered remoteInfo 5 10"

definition pumping :: WebRTCTransport where
  "pumping = handleTrack_go announced remoteInfo 5 10"

definition packetRead :: WebRTCTransport where
  "packetRead =
     receiveRead pumping remoteInfo 5 10 (Inr \<lparr>rtp_Packet.SSRC = 2002, MarshalSize = 120\<rparr>)"

definition packetSent :: WebRTCTransport where
  "packetSent =
     receiveSend packetRead remoteInfo 5 10 \<lparr>rtp_Packet.SSRC = 2002, MarshalSize = 120\<rparr>"

definition loopLeft :: WebRTCTransport where
  "loopLeft = receiveRead packetSent remoteInfo 5 10 (Inl EOF)"

definition trackEnded :: WebRTCTransport where
  "trackEnded = receiveDeferred loopLeft remoteInfo 5 10 25"

text \<open>
  The shutdown goroutine going through its six statements with no other goroutine in
  between.
\<close>

definition shutdownAll :: "WebRTCTransport \<Rightarrow> WebRTCTransport" where
  "shutdownAll p =
     shutdownStep (shutdownStep (shutdownStep (shutdownStep (shutdownStep (shutdownStep p)))))"

text \<open>
  A close that meets a call of \<open>handleTrack\<close> at its send. On a new transport the
  engine calls \<open>handleTrack\<close> at time 10, and the call stands at the send of line 519,
  no consumer having taken the event yet (\<open>callbackWaits\<close>). The signaller closes its
  close channel, and the shutdown goroutine, finding the wait group at 0, closes the
  channels (\<open>closedUnderCallback\<close>). The send of line 519 is then a send on a closed
  channel (\<open>sendPanics\<close>).
\<close>

definition callbackWaits :: WebRTCTransport where
  "callbackWaits = handleTrack_register simEngine newTransport 5 6 10"

definition closedUnderCallback :: WebRTCTransport where
  "closedUnderCallback = shutdownAll (signallerCloses callbackWaits)"

definition sendPanics :: WebRTCTransport where
  "sendPanics = handleTrack_send closedUnderCallback remoteInfo 5 10"

text \<open>
  A close between the send of line 519 and \<open>wg.Add(1)\<close> of line 524. The send of the
  call completes (\<open>addSent\<close>); the signaller closes its close channel, and the shutdown
  goroutine, finding the wait group at 0, closes the channels (\<open>closedBeforeAdd\<close>);
  the call goes on, adds one to the wait group and starts the pump (\<open>pumpStartedLate\<close>);
  the pump reads the end of the stream and leaves its loop (\<open>latePumpLeaves\<close>); the
  send of line 529 in its deferred function is then a send on a closed channel
  (\<open>latePumpPanics\<close>).
\<close>

definition addSent :: WebRTCTransport where
  "addSent = handleTrack_send callbackWaits remoteInfo 5 10"

definition closedBeforeAdd :: WebRTCTransport where
  "closedBeforeAdd = shutdownAll (signallerCloses addSent)"

definition pumpStartedLate :: WebRTCTransport where
  "pumpStartedLate = handleTrack_go closedBeforeAdd remoteInfo 5 10"

definition latePumpLeaves :: WebRTCTransport where
  "latePumpLeaves = receiveRead pumpStartedLate remoteInfo 5 10 (Inl EOF)"

definition latePumpPanics :: WebRTCTransport where
  "latePumpPanics = receiveDeferred latePumpLeaves remoteInfo 5 10 25"

section \<open>Properties\<close>

subsection \<open>The local track of the simulated engine\<close>

lemma oneTrack_localTracks:
  "localTracks oneTrack =
     [1001 \<mapsto> \<lparr>localTrackInfo.trackInfo =
                 \<lparr>TrackInfo.SSRC = 1001, ID = ''v0'', StreamID = ''s0'',
                  Kind = RTPCodecTypeVideo, Mid = ''''\<rparr>,
               localTrackInfo.transceiver = Some 3, sender = 2,
               localTrackInfo.track = 1\<rparr>]"
  by (simp add: oneTrack_def AddTrack_def simEngine_def newTransport_def)

subsection \<open>Tracks that are not registered\<close>

lemma RemoveTrack_ok_absent:
  assumes "RemoveTrack eng0 p0 ssrc = (p, None)"
  shows "localTracks p ssrc = None"
proof (cases "localTracks p0 ssrc")
  case None
  with assms show ?thesis by (simp add: RemoveTrack_def)
next
  case (Some pta)
  with assms show ?thesis
    by (auto simp: RemoveTrack_def Let_def split: if_splits)
qed

text \<open>
  C2. When the SSRC has no entry in the registry of local tracks, because none was added
  or because \<open>RemoveTrack\<close> removed it and returned nil, \<open>WriteRTP\<close> of a packet with
  this SSRC and \<open>RemoveTrack\<close> of this SSRC both return the error "track not found", and
  the transport they leave is the one they found: the registry has not changed.
\<close>

theorem absent_ssrc_not_found:
  assumes "localTracks p ssrc = None \<or> RemoveTrack eng0 p0 ssrc = (p, None)"
    and "rtp_Packet.SSRC packet = ssrc"
  shows "WriteRTP eng p packet = (p, 0, Some (TrackNotFound ssrc)) \<and>
         RemoveTrack eng p ssrc = (p, Some (TrackNotFound ssrc))"
proof -
  from assms(1) have absent: "localTracks p ssrc = None"
    using RemoveTrack_ok_absent by blast
  with assms(2) have "WriteRTP eng p packet = (p, 0, Some (TrackNotFound ssrc))"
    by (simp add: WriteRTP_def)
  moreover from absent have "RemoveTrack eng p ssrc = (p, Some (TrackNotFound ssrc))"
    by (simp add: RemoveTrack_def)
  ultimately show ?thesis by simp
qed

theorem absent_ssrc_not_found_witness:
  "RemoveTrack simEngine oneTrack 1001 = (fst (RemoveTrack simEngine oneTrack 1001), None) \<and>
   WriteRTP simEngine (fst (RemoveTrack simEngine oneTrack 1001))
       \<lparr>rtp_Packet.SSRC = 1001, MarshalSize = 200\<rparr> =
     (fst (RemoveTrack simEngine oneTrack 1001), 0, Some (TrackNotFound 1001)) \<and>
   RemoveTrack simEngine (fst (RemoveTrack simEngine oneTrack 1001)) 1001 =
     (fst (RemoveTrack simEngine oneTrack 1001), Some (TrackNotFound 1001))"
proof -
  have removed:
    "RemoveTrack simEngine oneTrack 1001 = (fst (RemoveTrack simEngine oneTrack 1001), None)"
    by (simp add: RemoveTrack_def oneTrack_localTracks simEngine_def)
  have ssrc: "rtp_Packet.SSRC \<lparr>rtp_Packet.SSRC = 1001, MarshalSize = 200\<rparr> = (1001 :: uint32)"
    by simp
  show ?thesis
    using absent_ssrc_not_found [OF disjI2 [OF removed] ssrc, of simEngine] removed
    by simp
qed

subsection \<open>Writing a packet\<close>

lemma errIs_nil: "\<not> errIs None target"
  by (simp add: errIs_def)

lemma oneTrack_metrics:
  "prometheusRTPPacketsSent oneTrack = 0" "prometheusRTPPacketsSentBytes oneTrack = 0"
  by (simp_all add: oneTrack_def AddTrack_def simEngine_def newTransport_def)

text \<open>
  C3. When the SSRC of the packet is registered as a local track and the write of the
  engine returns the no-subscriber condition \<open>io.ErrClosedPipe\<close>, \<open>WriteRTP\<close> returns 0
  bytes and the nil error, and leaves the transport as it was.
\<close>

theorem no_subscriber_is_no_error:
  assumes "localTracks p (rtp_Packet.SSRC packet) = Some pta"
    and "errIs (TrackLocal_WriteRTP eng (localTrackInfo.track pta) packet) ErrClosedPipe"
  shows "WriteRTP eng p packet = (p, 0, None)"
  using assms by (simp add: WriteRTP_def)

theorem no_subscriber_is_no_error_witness:
  "WriteRTP (simEngine\<lparr>TrackLocal_WriteRTP := \<lambda>t packet. Some ErrClosedPipe\<rparr>) oneTrack
     \<lparr>rtp_Packet.SSRC = 1001, MarshalSize = 200\<rparr> = (oneTrack, 0, None)"
  by (rule no_subscriber_is_no_error) (simp_all add: oneTrack_localTracks errIs_def)

text \<open>
  C4. When the SSRC of the packet is registered as a local track and the write of the
  engine returns nil, \<open>WriteRTP\<close> returns the marshalled size of the packet and the nil
  error, the counter of sent bytes has grown by this size and the counter of sent packets
  by one.
\<close>

theorem successful_write_counts:
  assumes "localTracks p (rtp_Packet.SSRC packet) = Some pta"
    and "TrackLocal_WriteRTP eng (localTrackInfo.track pta) packet = None"
  shows "fst (snd (WriteRTP eng p packet)) = int (MarshalSize packet) \<and>
         snd (snd (WriteRTP eng p packet)) = None \<and>
         prometheusRTPPacketsSentBytes (fst (WriteRTP eng p packet)) =
           prometheusRTPPacketsSentBytes p + int (MarshalSize packet) \<and>
         prometheusRTPPacketsSent (fst (WriteRTP eng p packet)) =
           prometheusRTPPacketsSent p + 1"
  using assms by (simp add: WriteRTP_def errIs_nil)

theorem successful_write_counts_witness:
  "fst (snd (WriteRTP simEngine oneTrack \<lparr>rtp_Packet.SSRC = 1001, MarshalSize = 200\<rparr>)) = 200 \<and>
   snd (snd (WriteRTP simEngine oneTrack \<lparr>rtp_Packet.SSRC = 1001, MarshalSize = 200\<rparr>)) = None \<and>
   prometheusRTPPacketsSentBytes
     (fst (WriteRTP simEngine oneTrack \<lparr>rtp_Packet.SSRC = 1001, MarshalSize = 200\<rparr>)) = 200 \<and>
   prometheusRTPPacketsSent
     (fst (WriteRTP simEngine oneTrack \<lparr>rtp_Packet.SSRC = 1001, MarshalSize = 200\<rparr>)) = 1"
proof -
  have registered:
    "localTracks oneTrack (rtp_Packet.SSRC \<lparr>rtp_Packet.SSRC = 1001, MarshalSize = 200\<rparr>) =
       Some \<lparr>localTrackInfo.trackInfo =
               \<lparr>TrackInfo.SSRC = 1001, ID = ''v0'', StreamID = ''s0'',
                Kind = RTPCodecTypeVideo, Mid = ''''\<rparr>,
             localTrackInfo.transceiver = Some 3, sender = 2, localTrackInfo.track = 1\<rparr>"
    by (simp add: oneTrack_localTracks)
  have sent: "TrackLocal_WriteRTP simEngine n packet = None" for n packet
    by (simp add: simEngine_def)
  show ?thesis
    using successful_write_counts [OF registered sent] by (simp add: oneTrack_metrics)
qed

text \<open>
  C10. The counters of sent packets and of sent bytes grow only when the SSRC is
  registered and the write of the engine returns nil. In every other call of \<open>WriteRTP\<close>
  (the SSRC is not registered, the engine reports no subscriber, the engine reports
  another error) both counters keep their values.
\<close>

theorem write_counters_frame:
  "prometheusRTPPacketsSent (fst (WriteRTP eng p packet)) =
     prometheusRTPPacketsSent p +
       (case localTracks p (rtp_Packet.SSRC packet) of
          None \<Rightarrow> 0
        | Some pta \<Rightarrow>
            if TrackLocal_WriteRTP eng (localTrackInfo.track pta) packet = None then 1 else 0) \<and>
   prometheusRTPPacketsSentBytes (fst (WriteRTP eng p packet)) =
     prometheusRTPPacketsSentBytes p +
       (case localTracks p (rtp_Packet.SSRC packet) of
          None \<Rightarrow> 0
        | Some pta \<Rightarrow>
            if TrackLocal_WriteRTP eng (localTrackInfo.track pta) packet = None
            then int (MarshalSize packet) else 0)"
  by (auto simp: WriteRTP_def Let_def errIs_nil split: option.splits)

theorem write_counters_frame_witness:
  "prometheusRTPPacketsSent
     (fst (WriteRTP simEngine newTransport \<lparr>rtp_Packet.SSRC = 1001, MarshalSize = 200\<rparr>)) = 0 \<and>
   prometheusRTPPacketsSentBytes
     (fst (WriteRTP simEngine newTransport \<lparr>rtp_Packet.SSRC = 1001, MarshalSize = 200\<rparr>)) = 0 \<and>
   prometheusRTPPacketsSent
     (fst (WriteRTP (simEngine\<lparr>TrackLocal_WriteRTP := \<lambda>t packet. Some ErrClosedPipe\<rparr>)
        oneTrack \<lparr>rtp_Packet.SSRC = 1001, MarshalSize = 200\<rparr>)) = 0 \<and>
   prometheusRTPPacketsSentBytes
     (fst (WriteRTP (simEngine\<lparr>TrackLocal_WriteRTP := \<lambda>t packet. Some ErrClosedPipe\<rparr>)
        oneTrack \<lparr>rtp_Packet.SSRC = 1001, MarshalSize = 200\<rparr>)) = 0 \<and>
   prometheusRTPPacketsSent
     (fst (WriteRTP (simEngine\<lparr>TrackLocal_WriteRTP := \<lambda>t packet. Some (EngineError ''srtp'')\<rparr>)
        oneTrack \<lparr>rtp_Packet.SSRC = 1001, MarshalSize = 200\<rparr>)) = 0 \<and>
   prometheusRTPPacketsSentBytes
     (fst (WriteRTP (simEngine\<lparr>TrackLocal_WriteRTP := \<lambda>t packet. Some (EngineError ''srtp'')\<rparr>)
        oneTrack \<lparr>rtp_Packet.SSRC = 1001, MarshalSize = 200\<rparr>)) = 0"
  using
    write_counters_frame [of simEngine newTransport
      "\<lparr>rtp_Packet.SSRC = 1001, MarshalSize = 200\<rparr>"]
    write_counters_frame [of "simEngine\<lparr>TrackLocal_WriteRTP := \<lambda>t packet. Some ErrClosedPipe\<rparr>"
      oneTrack "\<lparr>rtp_Packet.SSRC = 1001, MarshalSize = 200\<rparr>"]
    write_counters_frame [of
      "simEngine\<lparr>TrackLocal_WriteRTP := \<lambda>t packet. Some (EngineError ''srtp'')\<rparr>"
      oneTrack "\<lparr>rtp_Packet.SSRC = 1001, MarshalSize = 200\<rparr>"]
  by (simp add: oneTrack_localTracks oneTrack_metrics newTransport_def)

subsection \<open>Removing and adding a local track\<close>

text \<open>
  C8. When the SSRC is registered and the engine fails to remove the sender,
  \<open>RemoveTrack\<close> returns the error of the engine, annotated; the entry, deleted before
  the engine was called, stays deleted, nothing else of the transport has changed, and
  the signaller was not asked to negotiate.
\<close>

theorem failed_removal_is_not_undone:
  assumes "localTracks p ssrc = Some pta"
    and "PeerConnection_RemoveTrack eng (sender pta) = Some e"
  shows "snd (RemoveTrack eng p ssrc) = Some (Annotated e ''remove track'') \<and>
         fst (RemoveTrack eng p ssrc) = p\<lparr>localTracks := (localTracks p)(ssrc := None)\<rparr> \<and>
         localTracks (fst (RemoveTrack eng p ssrc)) ssrc = None \<and>
         signaller (fst (RemoveTrack eng p ssrc)) = signaller p"
  using assms by (simp add: RemoveTrack_def)

theorem failed_removal_is_not_undone_witness:
  "localTracks oneTrack 1001 \<noteq> None \<and>
   snd (RemoveTrack (simEngine\<lparr>PeerConnection_RemoveTrack := \<lambda>s. Some (EngineError ''closed'')\<rparr>)
          oneTrack 1001) = Some (Annotated (EngineError ''closed'') ''remove track'') \<and>
   localTracks
     (fst (RemoveTrack
        (simEngine\<lparr>PeerConnection_RemoveTrack := \<lambda>s. Some (EngineError ''closed'')\<rparr>)
        oneTrack 1001)) 1001 = None \<and>
   signaller
     (fst (RemoveTrack
        (simEngine\<lparr>PeerConnection_RemoveTrack := \<lambda>s. Some (EngineError ''closed'')\<rparr>)
        oneTrack 1001)) = signaller oneTrack"
proof -
  have registered:
    "localTracks oneTrack 1001 =
       Some \<lparr>localTrackInfo.trackInfo =
               \<lparr>TrackInfo.SSRC = 1001, ID = ''v0'', StreamID = ''s0'',
                Kind = RTPCodecTypeVideo, Mid = ''''\<rparr>,
             localTrackInfo.transceiver = Some 3, sender = 2, localTrackInfo.track = 1\<rparr>"
    by (simp add: oneTrack_localTracks)
  have fails:
    "PeerConnection_RemoveTrack
       (simEngine\<lparr>PeerConnection_RemoveTrack := \<lambda>s. Some (EngineError ''closed'')\<rparr>) s =
     Some (EngineError ''closed'')" for s
    by simp
  show ?thesis
    using failed_removal_is_not_undone [OF registered fails] registered by simp
qed

text \<open>
  C6. When the engine fails to create the track, or creates it and fails to register it
  as a sender, \<open>AddTrack\<close> returns the error of the engine, annotated, and the transport
  is as it was: no entry was put in the registry and no feedback pump was started.
\<close>

theorem failed_add_registers_nothing:
  assumes "NewTrackLocalStaticRTP eng MimeTypeVP8 id' streamId = Inl e \<or>
           (NewTrackLocalStaticRTP eng MimeTypeVP8 id' streamId = Inr t \<and>
            PeerConnection_AddTrack eng t = Inl e)"
  shows "snd (AddTrack eng p ssrc id' streamId) =
           Some (Annotated e
             (if NewTrackLocalStaticRTP eng MimeTypeVP8 id' streamId = Inl e
              then ''new track'' else ''add track'')) \<and>
         fst (AddTrack eng p ssrc id' streamId) = p \<and>
         localTracks (fst (AddTrack eng p ssrc id' streamId)) = localTracks p \<and>
         goroutines (fst (AddTrack eng p ssrc id' streamId)) = goroutines p"
  using assms by (auto simp: AddTrack_def)

theorem failed_add_registers_nothing_witness:
  "snd (AddTrack (simEngine\<lparr>NewTrackLocalStaticRTP := \<lambda>mime i s. Inl (EngineError ''codec'')\<rparr>)
          newTransport 1001 ''v0'' ''s0'') =
     Some (Annotated (EngineError ''codec'') ''new track'') \<and>
   fst (AddTrack (simEngine\<lparr>NewTrackLocalStaticRTP := \<lambda>mime i s. Inl (EngineError ''codec'')\<rparr>)
          newTransport 1001 ''v0'' ''s0'') = newTransport \<and>
   snd (AddTrack (simEngine\<lparr>PeerConnection_AddTrack := \<lambda>t. Inl (EngineError ''closed'')\<rparr>)
          newTransport 1001 ''v0'' ''s0'') =
     Some (Annotated (EngineError ''closed'') ''add track'') \<and>
   fst (AddTrack (simEngine\<lparr>PeerConnection_AddTrack := \<lambda>t. Inl (EngineError ''closed'')\<rparr>)
          newTransport 1001 ''v0'' ''s0'') = newTransport \<and>
   goroutines newTransport = []"
proof -
  have no_track:
    "NewTrackLocalStaticRTP
       (simEngine\<lparr>NewTrackLocalStaticRTP := \<lambda>mime i s. Inl (EngineError ''codec'')\<rparr>)
       MimeTypeVP8 ''v0'' ''s0'' = Inl (EngineError ''codec'')"
    by simp
  have no_sender:
    "NewTrackLocalStaticRTP
       (simEngine\<lparr>PeerConnection_AddTrack := \<lambda>t. Inl (EngineError ''closed'')\<rparr>)
       MimeTypeVP8 ''v0'' ''s0'' = Inr 1 \<and>
     PeerConnection_AddTrack
       (simEngine\<lparr>PeerConnection_AddTrack := \<lambda>t. Inl (EngineError ''closed'')\<rparr>) 1 =
       Inl (EngineError ''closed'')"
    by (simp add: simEngine_def)
  show ?thesis
    using
      failed_add_registers_nothing [where p = newTransport and ssrc = 1001 and t = 1,
        OF disjI1 [OF no_track]]
      failed_add_registers_nothing [where p = newTransport and ssrc = 1001,
        OF disjI2 [OF no_sender]]
      no_sender
    by (simp add: newTransport_def)
qed

subsection \<open>What one move changes\<close>

text \<open>
  What a move does to the channel of track events, to the pumps, to the calls of
  \<open>handleTrack\<close> that have not returned and to the wait group.
\<close>

lemma methods_frame:
  "trackEventsCh (fst (WriteRTCP eng p packets)) = trackEventsCh p"
  "goroutines (fst (WriteRTCP eng p packets)) = goroutines p"
  "callbacks (fst (WriteRTCP eng p packets)) = callbacks p"
  "wg (fst (WriteRTCP eng p packets)) = wg p"
  "trackEventsCh (fst (WriteRTP eng p packet)) = trackEventsCh p"
  "goroutines (fst (WriteRTP eng p packet)) = goroutines p"
  "callbacks (fst (WriteRTP eng p packet)) = callbacks p"
  "wg (fst (WriteRTP eng p packet)) = wg p"
  "trackEventsCh (fst (RemoveTrack eng p ssrc)) = trackEventsCh p"
  "goroutines (fst (RemoveTrack eng p ssrc)) = goroutines p"
  "callbacks (fst (RemoveTrack eng p ssrc)) = callbacks p"
  "wg (fst (RemoveTrack eng p ssrc)) = wg p"
  by (simp_all add: WriteRTCP_def WriteRTP_def RemoveTrack_def Let_def split: option.splits)

lemma AddTrack_frame:
  "trackEventsCh (fst (AddTrack eng p ssrc id' streamId)) = trackEventsCh p"
  "callbacks (fst (AddTrack eng p ssrc id' streamId)) = callbacks p"
  "(goroutines (fst (AddTrack eng p ssrc id' streamId)) = goroutines p \<and>
    wg (fst (AddTrack eng p ssrc id' streamId)) = wg p) \<or>
   (\<exists>s. goroutines (fst (AddTrack eng p ssrc id' streamId)) = goroutines p @ [FeedbackPump s] \<and>
        wg (fst (AddTrack eng p ssrc id' streamId)) = wg p + 1)"
  by (simp_all add: AddTrack_def Let_def split: sum.splits)

lemma shutdown_frame:
  "trackEventsCh (shutdownStep p) = trackEventsCh p"
  "goroutines (shutdownStep p) = goroutines p"
  "callbacks (shutdownStep p) = callbacks p"
  "wg (shutdownStep p) = wg p"
  "crashed (shutdownStep p) = crashed p"
  "trackEventsCh (signallerCloses p) = trackEventsCh p"
  "goroutines (signallerCloses p) = goroutines p"
  "callbacks (signallerCloses p) = callbacks p"
  "wg (signallerCloses p) = wg p"
  "crashed (signallerCloses p) = crashed p"
  by (simp_all add: shutdownStep_def signallerCloses_def split: shutdown_point.splits)

lemma step_effect:
  assumes "step p p'"
  obtains
    (same)
      "trackEventsCh p' = trackEventsCh p" "goroutines p' = goroutines p"
      "callbacks p' = callbacks p" "wg p' = wg p"
  | (feedback_started) s where
      "trackEventsCh p' = trackEventsCh p" "goroutines p' = goroutines p @ [FeedbackPump s]"
      "callbacks p' = callbacks p" "wg p' = wg p + 1"
  | (feedback_returned) s where
      "FeedbackPump s \<in> set (goroutines p)"
      "trackEventsCh p' = trackEventsCh p"
      "goroutines p' = remove1 (FeedbackPump s) (goroutines p)"
      "callbacks p' = callbacks p" "wg p' = wg p - 1"
  | (moved) g g' where
      "g \<in> set (goroutines p)" "pumpInfo g' = pumpInfo g"
      "trackEventsCh p' = trackEventsCh p" "goroutines p' = remove1 g (goroutines p) @ [g']"
      "callbacks p' = callbacks p" "wg p' = wg p"
  | (track_delivered) ti t start where
      "Mid ti = ''''"
      "trackEventsCh p' = trackEventsCh p" "goroutines p' = goroutines p"
      "callbacks p' = callbacks p @ [HandleTrackSend ti t start]" "wg p' = wg p"
  | (added) ti t start where
      "HandleTrackSend ti t start \<in> set (callbacks p)"
      "trackEventsCh p' =
         trackEventsCh p @ [\<lparr>EventTrackInfo = ti, EventType = TrackEventTypeAdd\<rparr>]"
      "goroutines p' = goroutines p"
      "callbacks p' =
         remove1 (HandleTrackSend ti t start) (callbacks p) @ [HandleTrackAdd ti t start]"
      "wg p' = wg p"
  | (pump_started) ti t start where
      "HandleTrackAdd ti t start \<in> set (callbacks p)"
      "trackEventsCh p' = trackEventsCh p"
      "goroutines p' = goroutines p @ [ReceivePump ti t start]"
      "callbacks p' = remove1 (HandleTrackAdd ti t start) (callbacks p)"
      "wg p' = wg p + 1"
  | (removed) ti t start where
      "ReceiveExit ti t start \<in> set (goroutines p)"
      "trackEventsCh p' =
         trackEventsCh p @ [\<lparr>EventTrackInfo = ti, EventType = TrackEventTypeRemove\<rparr>]"
      "goroutines p' = remove1 (ReceiveExit ti t start) (goroutines p)"
      "callbacks p' = callbacks p" "wg p' = wg p - 1"
  using assms
proof cases
  case (WriteRTCP eng packets)
  then show ?thesis using same by (simp add: methods_frame)
next
  case (WriteRTP eng packet)
  then show ?thesis using same by (simp add: methods_frame)
next
  case (RemoveTrack eng ssrc)
  then show ?thesis using same by (simp add: methods_frame)
next
  case (AddTrack eng ssrc id' streamId)
  with AddTrack_frame [of eng p ssrc id' streamId] show ?thesis
    using same feedback_started by auto
next
  case (feedbackRead sender' res)
  show ?thesis
  proof (cases res)
    case (Inl e)
    show ?thesis
      by (rule feedback_returned [of sender'])
        (simp_all add: feedbackRead Inl feedbackRead_def)
  next
    case (Inr packets)
    show ?thesis
    proof (cases packets)
      case Nil
      show ?thesis
        by (rule same) (simp_all add: feedbackRead Inr Nil feedbackRead_def)
    next
      case (Cons rtcpPacket rest)
      show ?thesis
        by (rule moved [of "FeedbackPump sender'" "FeedbackSend sender' rtcpPacket rest"])
          (simp_all add: feedbackRead Inr Cons feedbackRead_def)
    qed
  qed
next
  case (feedbackSend sender' rtcpPacket rest)
  show ?thesis
  proof (cases "rtcpChClosed p")
    case True
    show ?thesis
      by (rule same) (simp_all add: feedbackSend True feedbackSend_def)
  next
    case False
    show ?thesis
    proof (cases rest)
      case Nil
      show ?thesis
        by (rule moved [of "FeedbackSend sender' rtcpPacket []" "FeedbackPump sender'"])
          (simp_all add: feedbackSend [unfolded Nil] False feedbackSend_def)
    next
      case (Cons rtcpPacket' rest')
      show ?thesis
        by (rule moved [of "FeedbackSend sender' rtcpPacket (rtcpPacket' # rest')"
              "FeedbackSend sender' rtcpPacket' rest'"])
          (simp_all add: feedbackSend [unfolded Cons] False feedbackSend_def)
    qed
  qed
next
  case (handleTrack_register eng track' receiver' start)
  show ?thesis
    by (rule track_delivered [of "handleTrack_trackInfo eng track'" track' start])
      (simp_all add: handleTrack_register handleTrack_register_def handleTrack_trackInfo_def
        addRemoteTrack_def Let_def)
next
  case (handleTrack_send trackInfo' track' start)
  show ?thesis
  proof (cases "trackEventsChClosed p")
    case True
    show ?thesis
      by (rule same)
        (simp_all add: handleTrack_send True handleTrack_send_def)
  next
    case False
    show ?thesis
      by (rule added [of trackInfo' track' start])
        (simp_all add: handleTrack_send False handleTrack_send_def)
  qed
next
  case (handleTrack_go trackInfo' track' start)
  show ?thesis
    by (rule pump_started [of trackInfo' track' start])
      (simp_all add: handleTrack_go handleTrack_go_def)
next
  case (receiveRead trackInfo' track' start res')
  show ?thesis
  proof (cases res')
    case (Inl e)
    show ?thesis
      by (rule moved [of "ReceivePump trackInfo' track' start"
            "ReceiveExit trackInfo' track' start"])
        (simp_all add: receiveRead Inl receiveRead_def removeRemoteTrack_def)
  next
    case (Inr pkt)
    show ?thesis
      by (rule moved [of "ReceivePump trackInfo' track' start"
            "ReceiveSend trackInfo' track' start pkt"])
        (simp_all add: receiveRead Inr receiveRead_def)
  qed
next
  case (receiveSend trackInfo' track' start pkt)
  show ?thesis
  proof (cases "rtpChClosed p")
    case True
    show ?thesis
      by (rule same) (simp_all add: receiveSend True receiveSend_def)
  next
    case False
    show ?thesis
      by (rule moved [of "ReceiveSend trackInfo' track' start pkt"
            "ReceivePump trackInfo' track' start"])
        (simp_all add: receiveSend False receiveSend_def)
  qed
next
  case (receiveDeferred trackInfo' track' start now)
  show ?thesis
  proof (cases "trackEventsChClosed p")
    case True
    show ?thesis
      by (rule same)
        (simp_all add: receiveDeferred True receiveDeferred_def)
  next
    case False
    show ?thesis
      by (rule removed [of trackInfo' track' start])
        (simp_all add: receiveDeferred False receiveDeferred_def)
  qed
next
  case signallerCloses
  then show ?thesis using same by (simp add: shutdown_frame)
next
  case shutdownStep
  then show ?thesis using same by (simp add: shutdown_frame)
qed

subsection \<open>Invariants of a run\<close>

lemma published_append:
  "published ty ti (xs @ ys) = published ty ti xs + published ty ti ys"
  by (simp add: published_def)

lemma published_single:
  "published ty ti [\<lparr>EventTrackInfo = ti', EventType = ty'\<rparr>] =
     (if ti' = ti \<and> ty' = ty then 1 else 0)"
  by (simp add: published_def)

lemma published_Nil: "published ty ti [] = 0"
  by (simp add: published_def)

lemma running_append: "running ti (gs @ hs) = running ti gs + running ti hs"
  by (simp add: running_def)

lemma running_single: "running ti [g] = (if pumpInfo g = Some ti then 1 else 0)"
  by (simp add: running_def)

lemma running_Nil: "running ti [] = 0"
  by (simp add: running_def)

lemma running_remove1:
  "g \<in> set gs \<Longrightarrow>
   running ti (remove1 g gs) + (if pumpInfo g = Some ti then 1 else 0) = running ti gs"
  by (induction gs) (auto simp: running_def)

lemma starting_append: "starting ti (cs @ ds) = starting ti cs + starting ti ds"
  by (simp add: starting_def)

lemma starting_single:
  "starting ti [c] = (if pastSend c \<and> callbackInfo c = ti then 1 else 0)"
  by (simp add: starting_def)

lemma starting_Nil: "starting ti [] = 0"
  by (simp add: starting_def)

lemma starting_remove1:
  "c \<in> set cs \<Longrightarrow>
   starting ti (remove1 c cs) + (if pastSend c \<and> callbackInfo c = ti then 1 else 0) =
     starting ti cs"
  by (induction cs) (auto simp: starting_def)

lemma take_snoc_cases:
  "take n (xs @ [x]) = (if n \<le> length xs then take n xs else xs @ [x])"
  by (cases "n \<le> length xs") simp_all

text \<open>
  The track infos that the pumps, the calls of \<open>handleTrack\<close> and the published events
  hold all have the empty \<open>Mid\<close>.
\<close>

lemma reachable_no_mid:
  assumes "reachable p"
  shows "(\<forall>ev\<in>set (trackEventsCh p). Mid (EventTrackInfo ev) = '''') \<and>
         (\<forall>g\<in>set (goroutines p). \<forall>ti. pumpInfo g = Some ti \<longrightarrow> Mid ti = '''') \<and>
         (\<forall>c\<in>set (callbacks p). Mid (callbackInfo c) = '''')"
  using assms
proof (induction rule: reachable.induct)
  case (init p)
  then show ?case by (simp add: NewWebRTCTransport_def)
next
  case (step p p')
  from step.IH have ev: "Mid (EventTrackInfo ev) = ''''" if "ev \<in> set (trackEventsCh p)" for ev
    using that by blast
  from step.IH have go: "Mid ti = ''''" if "g \<in> set (goroutines p)" "pumpInfo g = Some ti"
    for g ti
    using that by blast
  from step.IH have cb: "Mid (callbackInfo c) = ''''" if "c \<in> set (callbacks p)" for c
    using that by blast
  from step.hyps(2) show ?case
  proof (cases rule: step_effect)
    case same
    then show ?thesis using step.IH by simp
  next
    case (feedback_started s)
    then show ?thesis using ev go cb by auto
  next
    case (feedback_returned s)
    then have "set (goroutines p') \<subseteq> set (goroutines p)"
      by (simp add: set_remove1_subset)
    with feedback_returned show ?thesis using ev go cb by fastforce
  next
    case (moved g g')
    have "Mid ti = ''''" if "h \<in> set (goroutines p')" "pumpInfo h = Some ti" for h ti
    proof (cases "h = g'")
      case True
      with that moved(1,2) show ?thesis using go [of g ti] by simp
    next
      case False
      with that moved(4) have "h \<in> set (remove1 g (goroutines p))" by simp
      then have "h \<in> set (goroutines p)"
        using set_remove1_subset by fastforce
      with that show ?thesis using go by blast
    qed
    with moved show ?thesis using ev cb by auto
  next
    case (track_delivered ti t start)
    then show ?thesis using ev go cb by auto
  next
    case (added ti t start)
    from added(1) have mid: "Mid ti = ''''"
      using cb [of "HandleTrackSend ti t start"] by simp
    have "Mid (callbackInfo c) = ''''" if "c \<in> set (callbacks p')" for c
    proof (cases "c = HandleTrackAdd ti t start")
      case True
      with mid show ?thesis by simp
    next
      case False
      with that added(4) have "c \<in> set (remove1 (HandleTrackSend ti t start) (callbacks p))"
        by simp
      then have "c \<in> set (callbacks p)"
        using set_remove1_subset by fastforce
      then show ?thesis by (rule cb)
    qed
    with added mid show ?thesis using ev go by auto
  next
    case (pump_started ti t start)
    from pump_started(1) have mid: "Mid ti = ''''"
      using cb [of "HandleTrackAdd ti t start"] by simp
    have "Mid (callbackInfo c) = ''''" if "c \<in> set (callbacks p')" for c
    proof -
      from that pump_started(4) have "c \<in> set (callbacks p)"
        using set_remove1_subset by fastforce
      then show ?thesis by (rule cb)
    qed
    with pump_started mid show ?thesis using ev go by auto
  next
    case (removed ti t start)
    from removed(1) have mid: "Mid ti = ''''"
      using go [of "ReceiveExit ti t start" ti] by simp
    have "Mid ti' = ''''" if "h \<in> set (goroutines p')" "pumpInfo h = Some ti'" for h ti'
    proof -
      from that(1) removed(3) have "h \<in> set (goroutines p)"
        using set_remove1_subset by fastforce
      with that(2) show ?thesis using go by blast
    qed
    with removed mid show ?thesis using ev cb by auto
  qed
qed

text \<open>
  The counter of the wait group is the number of pumps that are running: each
  \<open>wg.Done\<close> of a pump follows the \<open>wg.Add(1)\<close> made before the pump was started, and
  the counter never goes below 0. The calls of \<open>handleTrack\<close> that have not returned are
  not counted.
\<close>

lemma reachable_wg: "reachable p \<Longrightarrow> wg p = int (length (goroutines p))"
proof (induction rule: reachable.induct)
  case (init p)
  then show ?case by (simp add: NewWebRTCTransport_def)
next
  case (step p p')
  have less: "int (length gs - Suc 0) = int (length gs) - 1" if "g \<in> set gs"
    for g :: goroutine and gs
    using that by (cases gs) auto
  from step.hyps(2) show ?case
  proof (cases rule: step_effect)
    case same
    with step.IH show ?thesis by simp
  next
    case (feedback_started s)
    with step.IH show ?thesis by simp
  next
    case (feedback_returned s)
    with step.IH less [OF feedback_returned(1)] show ?thesis
      by (simp add: length_remove1)
  next
    case (moved g g')
    from moved(1) have "length (goroutines p) \<noteq> 0" by auto
    with moved step.IH show ?thesis
      by (simp add: length_remove1)
  next
    case (track_delivered ti t start)
    with step.IH show ?thesis by simp
  next
    case (added ti t start)
    with step.IH show ?thesis by simp
  next
    case (pump_started ti t start)
    with step.IH show ?thesis by simp
  next
    case (removed ti t start)
    with step.IH less [OF removed(1)] show ?thesis
      by (simp add: length_remove1)
  qed
qed

text \<open>
  For every track info, the events added are as many as the events removed, the pumps
  that are running and the calls of \<open>handleTrack\<close> that are past their send and have not
  started their pump, together; and in every prefix of the channel of track events the
  events removed are at most as many as the events added.
\<close>

lemma reachable_balance:
  assumes "reachable p"
  shows "(\<forall>ti. published TrackEventTypeAdd ti (trackEventsCh p) =
               published TrackEventTypeRemove ti (trackEventsCh p) +
                 running ti (goroutines p) + starting ti (callbacks p)) \<and>
         (\<forall>n ti. published TrackEventTypeRemove ti (take n (trackEventsCh p)) \<le>
                 published TrackEventTypeAdd ti (take n (trackEventsCh p)))"
  using assms
proof (induction rule: reachable.induct)
  case (init p)
  then show ?case
    by (simp add: NewWebRTCTransport_def published_Nil running_Nil starting_Nil)
next
  case (step p p')
  from step.IH have inv:
    "published TrackEventTypeAdd ti (trackEventsCh p) =
       published TrackEventTypeRemove ti (trackEventsCh p) +
         running ti (goroutines p) + starting ti (callbacks p)"
    and ord: "published TrackEventTypeRemove ti (take n (trackEventsCh p)) \<le>
       published TrackEventTypeAdd ti (take n (trackEventsCh p))" for ti n
    by simp_all
  from step.hyps(2) show ?case
  proof (cases rule: step_effect)
    case same
    then show ?thesis using step.IH by simp
  next
    case (feedback_started s)
    then show ?thesis using step.IH by (simp add: running_append running_single)
  next
    case (feedback_returned s)
    have "running ti (remove1 (FeedbackPump s) (goroutines p)) = running ti (goroutines p)"
      for ti
      using running_remove1 [OF feedback_returned(1), of ti] by simp
    with feedback_returned show ?thesis using step.IH by simp
  next
    case (moved g g')
    have "running ti (remove1 g (goroutines p) @ [g']) = running ti (goroutines p)" for ti
      using running_remove1 [OF moved(1), of ti] moved(2)
      by (simp add: running_append running_single)
    with moved show ?thesis using step.IH by simp
  next
    case (track_delivered ti' t start)
    then show ?thesis using step.IH by (simp add: starting_append starting_single)
  next
    case (added ti' t start)
    have cs: "starting ti (callbacks p') =
          starting ti (callbacks p) + (if ti' = ti then 1 else 0)" for ti
      using starting_remove1 [OF added(1), of ti] added(4)
      by (simp add: starting_append starting_single)
    have "published TrackEventTypeAdd ti (trackEventsCh p') =
            published TrackEventTypeRemove ti (trackEventsCh p') +
              running ti (goroutines p') + starting ti (callbacks p')" for ti
      using inv [of ti] cs [of ti] added(2,3)
      by (simp add: published_append published_single)
    moreover have "published TrackEventTypeRemove ti (take n (trackEventsCh p')) \<le>
            published TrackEventTypeAdd ti (take n (trackEventsCh p'))" for ti n
      using inv [of ti] ord [of ti n] added(2)
      by (simp add: published_append published_single take_snoc_cases del: take_append)
    ultimately show ?thesis by simp
  next
    case (pump_started ti' t start)
    have cs: "starting ti (callbacks p') + (if ti' = ti then 1 else 0) =
          starting ti (callbacks p)" for ti
      using starting_remove1 [OF pump_started(1), of ti] pump_started(4) by simp
    have "published TrackEventTypeAdd ti (trackEventsCh p') =
            published TrackEventTypeRemove ti (trackEventsCh p') +
              running ti (goroutines p') + starting ti (callbacks p')" for ti
      using inv [of ti] cs [of ti] pump_started(2,3)
      by (simp add: running_append running_single)
    with pump_started(2) show ?thesis using step.IH by simp
  next
    case (removed ti' t start)
    have bal: "running ti (goroutines p') + (if ti' = ti then 1 else 0) =
               running ti (goroutines p)" for ti
      using running_remove1 [OF removed(1), of ti] removed(3) by simp
    have "published TrackEventTypeAdd ti (trackEventsCh p') =
            published TrackEventTypeRemove ti (trackEventsCh p') +
              running ti (goroutines p') + starting ti (callbacks p')" for ti
      using inv [of ti] bal [of ti] removed(2,4)
      by (simp add: published_append published_single)
    moreover have "published TrackEventTypeRemove ti (take n (trackEventsCh p')) \<le>
            published TrackEventTypeAdd ti (take n (trackEventsCh p'))" for ti n
      using inv [of ti] bal [of ti] ord [of ti n] removed(2)
      by (simp add: published_append published_single take_snoc_cases del: take_append)
    ultimately show ?thesis by simp
  qed
qed

subsection \<open>A crashed transport does not move\<close>

lemma crashed_no_step: "crashed p \<noteq> None \<Longrightarrow> \<not> step p p'"
  by (auto elim: step.cases)

subsection \<open>The runs of the simulated engine\<close>

text \<open>What each move of these runs does to the fields that the runs are about.\<close>

lemma handleTrack_register_fields:
  "crashed (handleTrack_register eng p t r s) = crashed p"
  "trackEventsChClosed (handleTrack_register eng p t r s) = trackEventsChClosed p"
  "rtpChClosed (handleTrack_register eng p t r s) = rtpChClosed p"
  "trackEventsCh (handleTrack_register eng p t r s) = trackEventsCh p"
  "rtpCh (handleTrack_register eng p t r s) = rtpCh p"
  "goroutines (handleTrack_register eng p t r s) = goroutines p"
  "localTracks (handleTrack_register eng p t r s) = localTracks p"
  "wg (handleTrack_register eng p t r s) = wg p"
  "shutdown (handleTrack_register eng p t r s) = shutdown p"
  "closeCh (handleTrack_register eng p t r s) = closeCh p"
  "callbacks (handleTrack_register eng p t r s) =
     callbacks p @ [HandleTrackSend (handleTrack_trackInfo eng t) t s]"
  "remoteTracks (handleTrack_register eng p t r s) =
     (remoteTracks p)(TrackRemote_SSRC eng t \<mapsto>
        \<lparr>remoteTrackInfo.trackInfo = handleTrack_trackInfo eng t,
         remoteTrackInfo.transceiver =
           find (\<lambda>tr. Transceiver_Receiver eng tr = Some r) (PeerConnection_GetTransceivers eng),
         receiver = r, remoteTrackInfo.track = t\<rparr>)"
  by (simp_all add: handleTrack_register_def addRemoteTrack_def handleTrack_trackInfo_def
      Let_def)

lemma handleTrack_send_fields:
  "crashed (handleTrack_send p ti t s) =
     (if trackEventsChClosed p then Some SendOnClosedChannel else crashed p)"
  "trackEventsChClosed (handleTrack_send p ti t s) = trackEventsChClosed p"
  "rtpChClosed (handleTrack_send p ti t s) = rtpChClosed p"
  "trackEventsCh (handleTrack_send p ti t s) =
     (if trackEventsChClosed p then trackEventsCh p
      else trackEventsCh p @ [\<lparr>EventTrackInfo = ti, EventType = TrackEventTypeAdd\<rparr>])"
  "rtpCh (handleTrack_send p ti t s) = rtpCh p"
  "goroutines (handleTrack_send p ti t s) = goroutines p"
  "localTracks (handleTrack_send p ti t s) = localTracks p"
  "remoteTracks (handleTrack_send p ti t s) = remoteTracks p"
  "wg (handleTrack_send p ti t s) = wg p"
  "shutdown (handleTrack_send p ti t s) = shutdown p"
  "closeCh (handleTrack_send p ti t s) = closeCh p"
  "callbacks (handleTrack_send p ti t s) =
     (if trackEventsChClosed p then callbacks p
      else remove1 (HandleTrackSend ti t s) (callbacks p) @ [HandleTrackAdd ti t s])"
  by (simp_all add: handleTrack_send_def)

lemma handleTrack_go_fields:
  "crashed (handleTrack_go p ti t s) = crashed p"
  "trackEventsChClosed (handleTrack_go p ti t s) = trackEventsChClosed p"
  "rtpChClosed (handleTrack_go p ti t s) = rtpChClosed p"
  "trackEventsCh (handleTrack_go p ti t s) = trackEventsCh p"
  "rtpCh (handleTrack_go p ti t s) = rtpCh p"
  "goroutines (handleTrack_go p ti t s) = goroutines p @ [ReceivePump ti t s]"
  "localTracks (handleTrack_go p ti t s) = localTracks p"
  "remoteTracks (handleTrack_go p ti t s) = remoteTracks p"
  "wg (handleTrack_go p ti t s) = wg p + 1"
  "shutdown (handleTrack_go p ti t s) = shutdown p"
  "closeCh (handleTrack_go p ti t s) = closeCh p"
  "callbacks (handleTrack_go p ti t s) = remove1 (HandleTrackAdd ti t s) (callbacks p)"
  by (simp_all add: handleTrack_go_def Let_def)

lemma receiveRead_fields:
  "crashed (receiveRead p ti t s res) = crashed p"
  "trackEventsChClosed (receiveRead p ti t s res) = trackEventsChClosed p"
  "rtpChClosed (receiveRead p ti t s res) = rtpChClosed p"
  "trackEventsCh (receiveRead p ti t s res) = trackEventsCh p"
  "rtpCh (receiveRead p ti t s res) = rtpCh p"
  "goroutines (receiveRead p ti t s res) =
     remove1 (ReceivePump ti t s) (goroutines p) @
       [case res of Inl e \<Rightarrow> ReceiveExit ti t s | Inr pkt \<Rightarrow> ReceiveSend ti t s pkt]"
  "localTracks (receiveRead p ti t s res) = localTracks p"
  "wg (receiveRead p ti t s res) = wg p"
  "callbacks (receiveRead p ti t s res) = callbacks p"
  by (simp_all add: receiveRead_def removeRemoteTrack_def Let_def split: sum.splits)

lemma receiveSend_fields:
  "crashed (receiveSend p ti t s pkt) =
     (if rtpChClosed p then Some SendOnClosedChannel else crashed p)"
  "trackEventsChClosed (receiveSend p ti t s pkt) = trackEventsChClosed p"
  "rtpChClosed (receiveSend p ti t s pkt) = rtpChClosed p"
  "trackEventsCh (receiveSend p ti t s pkt) = trackEventsCh p"
  "rtpCh (receiveSend p ti t s pkt) = (if rtpChClosed p then rtpCh p else rtpCh p @ [pkt])"
  "goroutines (receiveSend p ti t s pkt) =
     (if rtpChClosed p then goroutines p
      else remove1 (ReceiveSend ti t s pkt) (goroutines p) @ [ReceivePump ti t s])"
  "localTracks (receiveSend p ti t s pkt) = localTracks p"
  "wg (receiveSend p ti t s pkt) = wg p"
  "callbacks (receiveSend p ti t s pkt) = callbacks p"
  by (simp_all add: receiveSend_def)

lemma receiveDeferred_fields:
  "crashed (receiveDeferred p ti t s now) =
     (if trackEventsChClosed p then Some SendOnClosedChannel else crashed p)"
  "trackEventsChClosed (receiveDeferred p ti t s now) = trackEventsChClosed p"
  "rtpChClosed (receiveDeferred p ti t s now) = rtpChClosed p"
  "trackEventsCh (receiveDeferred p ti t s now) =
     (if trackEventsChClosed p then trackEventsCh p
      else trackEventsCh p @ [\<lparr>EventTrackInfo = ti, EventType = TrackEventTypeRemove\<rparr>])"
  "rtpCh (receiveDeferred p ti t s now) = rtpCh p"
  "goroutines (receiveDeferred p ti t s now) =
     (if trackEventsChClosed p then goroutines p
      else remove1 (ReceiveExit ti t s) (goroutines p))"
  "localTracks (receiveDeferred p ti t s now) = localTracks p"
  "wg (receiveDeferred p ti t s now) = (if trackEventsChClosed p then wg p else wg p - 1)"
  "callbacks (receiveDeferred p ti t s now) = callbacks p"
  by (simp_all add: receiveDeferred_def Let_def)

lemma signallerCloses_fields:
  "crashed (signallerCloses p) = crashed p"
  "trackEventsChClosed (signallerCloses p) = trackEventsChClosed p"
  "rtpChClosed (signallerCloses p) = rtpChClosed p"
  "trackEventsCh (signallerCloses p) = trackEventsCh p"
  "goroutines (signallerCloses p) = goroutines p"
  "remoteTracks (signallerCloses p) = remoteTracks p"
  "wg (signallerCloses p) = wg p"
  "shutdown (signallerCloses p) = shutdown p"
  "closeCh (signallerCloses p)"
  "callbacks (signallerCloses p) = callbacks p"
  by (simp_all add: signallerCloses_def)

text \<open>
  Once the close channel is closed and with the wait group at 0, the shutdown goroutine
  goes from its first statement to its last.
\<close>

lemma shutdownAll_fields:
  assumes "shutdown p = AwaitClose" and "closeCh p" and "wg p = 0"
  shows "crashed (shutdownAll p) = crashed p"
    "trackEventsChClosed (shutdownAll p)"
    "rtpChClosed (shutdownAll p)"
    "rtcpChClosed (shutdownAll p)"
    "dataTransceiverClosed (shutdownAll p)"
    "shutdown (shutdownAll p) = ShutdownDone"
    "trackEventsCh (shutdownAll p) = trackEventsCh p"
    "goroutines (shutdownAll p) = goroutines p"
    "remoteTracks (shutdownAll p) = remoteTracks p"
    "wg (shutdownAll p) = wg p"
    "callbacks (shutdownAll p) = callbacks p"
  using assms by (simp_all add: shutdownAll_def shutdownStep_def)

lemma reachable_shutdownStep:
  assumes "reachable p" and "crashed p = None"
  shows "reachable (shutdownStep p)"
  using assms(1) step.shutdownStep [OF assms(2)] by (rule reachable.step)

lemma reachable_shutdownAll:
  assumes "reachable p" and "crashed p = None"
  shows "reachable (shutdownAll p)"
  unfolding shutdownAll_def
  by (intro reachable_shutdownStep assms) (simp_all add: shutdown_frame assms)

lemma reachable_signallerCloses:
  assumes "reachable p" and "crashed p = None"
  shows "reachable (signallerCloses p)"
  using assms(1) step.signallerCloses [OF assms(2)] by (rule reachable.step)

lemma newTransport_new: "NewWebRTCTransport newTransport"
  by (simp add: NewWebRTCTransport_def newTransport_def)

lemma newTransport_fields:
  "crashed newTransport = None" "\<not> trackEventsChClosed newTransport"
  "\<not> rtpChClosed newTransport" "trackEventsCh newTransport = []" "rtpCh newTransport = []"
  "goroutines newTransport = []" "callbacks newTransport = []" "wg newTransport = 0"
  "shutdown newTransport = AwaitClose" "\<not> closeCh newTransport"
  "remoteTracks newTransport = Map.empty"
  by (simp_all add: newTransport_def)

lemma oneTrack_fields:
  "crashed oneTrack = None" "\<not> trackEventsChClosed oneTrack" "\<not> rtpChClosed oneTrack"
  "trackEventsCh oneTrack = []" "rtpCh oneTrack = []"
  "goroutines oneTrack = [FeedbackPump 2]" "callbacks oneTrack = []"
  by (simp_all add: oneTrack_def AddTrack_def simEngine_def newTransport_def)

lemma simEngine_remote: "handleTrack_trackInfo simEngine t = remoteInfo"
  by (simp add: handleTrack_trackInfo_def remoteInfo_def simEngine_def)

lemma simEngine_SSRC: "TrackRemote_SSRC simEngine t = 2002"
  by (simp add: simEngine_def)

lemmas run_fields =
  handleTrack_register_fields handleTrack_send_fields handleTrack_go_fields
  receiveRead_fields receiveSend_fields receiveDeferred_fields signallerCloses_fields
  simEngine_remote

text \<open>The remote track from its delivery to its end.\<close>

lemma delivered_fields:
  "crashed delivered = None" "\<not> trackEventsChClosed delivered" "\<not> rtpChClosed delivered"
  "trackEventsCh delivered = []" "rtpCh delivered = []"
  "goroutines delivered = [FeedbackPump 2]"
  "callbacks delivered = [HandleTrackSend remoteInfo 5 10]"
  "localTracks delivered = localTracks oneTrack"
  by (simp_all add: delivered_def run_fields oneTrack_fields)

lemma announced_fields:
  "crashed announced = None" "\<not> trackEventsChClosed announced" "\<not> rtpChClosed announced"
  "trackEventsCh announced = [\<lparr>EventTrackInfo = remoteInfo, EventType = TrackEventTypeAdd\<rparr>]"
  "rtpCh announced = []"
  "goroutines announced = [FeedbackPump 2]"
  "callbacks announced = [HandleTrackAdd remoteInfo 5 10]"
  "localTracks announced = localTracks oneTrack"
  by (simp_all add: announced_def run_fields delivered_fields)

lemma pumping_fields:
  "crashed pumping = None" "\<not> trackEventsChClosed pumping" "\<not> rtpChClosed pumping"
  "trackEventsCh pumping = [\<lparr>EventTrackInfo = remoteInfo, EventType = TrackEventTypeAdd\<rparr>]"
  "rtpCh pumping = []"
  "goroutines pumping = [FeedbackPump 2, ReceivePump remoteInfo 5 10]"
  "callbacks pumping = []"
  "localTracks pumping = localTracks oneTrack"
  by (simp_all add: pumping_def run_fields announced_fields)

lemma packetRead_fields:
  "crashed packetRead = None" "\<not> trackEventsChClosed packetRead" "\<not> rtpChClosed packetRead"
  "trackEventsCh packetRead =
     [\<lparr>EventTrackInfo = remoteInfo, EventType = TrackEventTypeAdd\<rparr>]"
  "rtpCh packetRead = []"
  "goroutines packetRead =
     [FeedbackPump 2,
      ReceiveSend remoteInfo 5 10 \<lparr>rtp_Packet.SSRC = 2002, MarshalSize = 120\<rparr>]"
  "callbacks packetRead = []"
  "localTracks packetRead = localTracks oneTrack"
  by (simp_all add: packetRead_def run_fields pumping_fields)

lemma packetSent_fields:
  "crashed packetSent = None" "\<not> trackEventsChClosed packetSent" "\<not> rtpChClosed packetSent"
  "trackEventsCh packetSent =
     [\<lparr>EventTrackInfo = remoteInfo, EventType = TrackEventTypeAdd\<rparr>]"
  "rtpCh packetSent = [\<lparr>rtp_Packet.SSRC = 2002, MarshalSize = 120\<rparr>]"
  "goroutines packetSent = [FeedbackPump 2, ReceivePump remoteInfo 5 10]"
  "callbacks packetSent = []"
  "localTracks packetSent = localTracks oneTrack"
  by (simp_all add: packetSent_def run_fields packetRead_fields)

lemma loopLeft_fields:
  "crashed loopLeft = None" "\<not> trackEventsChClosed loopLeft" "\<not> rtpChClosed loopLeft"
  "trackEventsCh loopLeft = [\<lparr>EventTrackInfo = remoteInfo, EventType = TrackEventTypeAdd\<rparr>]"
  "goroutines loopLeft = [FeedbackPump 2, ReceiveExit remoteInfo 5 10]"
  "callbacks loopLeft = []"
  "localTracks loopLeft = localTracks oneTrack"
  by (simp_all add: loopLeft_def run_fields packetSent_fields)

lemma trackEnded_channels:
  "trackEventsCh trackEnded =
     [\<lparr>EventTrackInfo = remoteInfo, EventType = TrackEventTypeAdd\<rparr>,
      \<lparr>EventTrackInfo = remoteInfo, EventType = TrackEventTypeRemove\<rparr>]"
  "goroutines trackEnded = [FeedbackPump 2]"
  "callbacks trackEnded = []"
  "crashed trackEnded = None"
  by (simp_all add: trackEnded_def run_fields loopLeft_fields)

lemma trackEnded_localTracks: "localTracks trackEnded = localTracks oneTrack"
  by (simp add: trackEnded_def run_fields loopLeft_fields)

lemma oneTrack_reachable: "reachable oneTrack"
  unfolding oneTrack_def
  by (rule reachable.step [OF reachable.init [OF newTransport_new]], rule step.AddTrack)
    (simp add: newTransport_fields)

lemma delivered_reachable: "reachable delivered"
  unfolding delivered_def
  by (rule reachable.step [OF oneTrack_reachable], rule step.handleTrack_register)
    (simp add: oneTrack_fields)

lemma announced_reachable: "reachable announced"
  unfolding announced_def
  by (rule reachable.step [OF delivered_reachable], rule step.handleTrack_send)
    (simp_all add: delivered_fields)

lemma pumping_reachable: "reachable pumping"
  unfolding pumping_def
  by (rule reachable.step [OF announced_reachable], rule step.handleTrack_go)
    (simp_all add: announced_fields)

lemma packetRead_reachable: "reachable packetRead"
  unfolding packetRead_def
  by (rule reachable.step [OF pumping_reachable], rule step.receiveRead)
    (simp_all add: pumping_fields)

lemma packetSent_reachable: "reachable packetSent"
  unfolding packetSent_def
  by (rule reachable.step [OF packetRead_reachable], rule step.receiveSend)
    (simp_all add: packetRead_fields)

lemma loopLeft_reachable: "reachable loopLeft"
  unfolding loopLeft_def
  by (rule reachable.step [OF packetSent_reachable], rule step.receiveRead)
    (simp_all add: packetSent_fields)

lemma trackEnded_reachable: "reachable trackEnded"
  unfolding trackEnded_def
  by (rule reachable.step [OF loopLeft_reachable], rule step.receiveDeferred)
    (simp_all add: loopLeft_fields)

text \<open>The close that meets a call of \<open>handleTrack\<close> at its send.\<close>

lemma callbackWaits_fields:
  "crashed callbackWaits = None" "\<not> trackEventsChClosed callbackWaits"
  "trackEventsCh callbackWaits = []" "goroutines callbackWaits = []"
  "callbacks callbackWaits = [HandleTrackSend remoteInfo 5 10]"
  "wg callbackWaits = 0" "shutdown callbackWaits = AwaitClose"
  "remoteTracks callbackWaits 2002 \<noteq> None"
  by (simp_all add: callbackWaits_def run_fields newTransport_fields simEngine_SSRC)

lemma callbackWaits_reachable: "reachable callbackWaits"
  unfolding callbackWaits_def
  by (rule reachable.step [OF reachable.init [OF newTransport_new]],
      rule step.handleTrack_register) (simp add: newTransport_fields)

lemma closedUnderCallback_fields:
  "crashed closedUnderCallback = None" "trackEventsChClosed closedUnderCallback"
  "rtpChClosed closedUnderCallback" "rtcpChClosed closedUnderCallback"
  "trackEventsCh closedUnderCallback = []" "goroutines closedUnderCallback = []"
  "callbacks closedUnderCallback = [HandleTrackSend remoteInfo 5 10]"
  "wg closedUnderCallback = 0"
  "remoteTracks closedUnderCallback 2002 \<noteq> None"
  by (simp_all add: closedUnderCallback_def shutdownAll_fields signallerCloses_fields
      callbackWaits_fields)

lemma closedUnderCallback_reachable: "reachable closedUnderCallback"
  unfolding closedUnderCallback_def
  by (intro reachable_shutdownAll reachable_signallerCloses callbackWaits_reachable)
    (simp_all add: signallerCloses_fields callbackWaits_fields)

lemma sendPanics_fields:
  "crashed sendPanics = Some SendOnClosedChannel"
  "trackEventsCh sendPanics = []"
  "callbacks sendPanics = [HandleTrackSend remoteInfo 5 10]"
  "remoteTracks sendPanics 2002 \<noteq> None"
  by (simp_all add: sendPanics_def run_fields closedUnderCallback_fields)

lemma sendPanics_reachable: "reachable sendPanics"
  unfolding sendPanics_def
  by (rule reachable.step [OF closedUnderCallback_reachable], rule step.handleTrack_send)
    (simp_all add: closedUnderCallback_fields)

text \<open>The close between the send of line 519 and \<open>wg.Add(1)\<close> of line 524.\<close>

lemma addSent_fields:
  "crashed addSent = None" "\<not> trackEventsChClosed addSent"
  "trackEventsCh addSent = [\<lparr>EventTrackInfo = remoteInfo, EventType = TrackEventTypeAdd\<rparr>]"
  "goroutines addSent = []"
  "callbacks addSent = [HandleTrackAdd remoteInfo 5 10]"
  "wg addSent = 0" "shutdown addSent = AwaitClose"
  by (simp_all add: addSent_def run_fields callbackWaits_fields)

lemma addSent_reachable: "reachable addSent"
  unfolding addSent_def
  by (rule reachable.step [OF callbackWaits_reachable], rule step.handleTrack_send)
    (simp_all add: callbackWaits_fields)

lemma closedBeforeAdd_fields:
  "crashed closedBeforeAdd = None" "trackEventsChClosed closedBeforeAdd"
  "rtpChClosed closedBeforeAdd" "rtcpChClosed closedBeforeAdd"
  "trackEventsCh closedBeforeAdd =
     [\<lparr>EventTrackInfo = remoteInfo, EventType = TrackEventTypeAdd\<rparr>]"
  "goroutines closedBeforeAdd = []"
  "callbacks closedBeforeAdd = [HandleTrackAdd remoteInfo 5 10]"
  "wg closedBeforeAdd = 0"
  by (simp_all add: closedBeforeAdd_def shutdownAll_fields signallerCloses_fields
      addSent_fields)

lemma closedBeforeAdd_reachable: "reachable closedBeforeAdd"
  unfolding closedBeforeAdd_def
  by (intro reachable_shutdownAll reachable_signallerCloses addSent_reachable)
    (simp_all add: signallerCloses_fields addSent_fields)

lemma pumpStartedLate_fields:
  "crashed pumpStartedLate = None" "trackEventsChClosed pumpStartedLate"
  "rtpChClosed pumpStartedLate"
  "trackEventsCh pumpStartedLate =
     [\<lparr>EventTrackInfo = remoteInfo, EventType = TrackEventTypeAdd\<rparr>]"
  "goroutines pumpStartedLate = [ReceivePump remoteInfo 5 10]"
  "callbacks pumpStartedLate = []"
  "wg pumpStartedLate = 1"
  by (simp_all add: pumpStartedLate_def run_fields closedBeforeAdd_fields)

lemma pumpStartedLate_reachable: "reachable pumpStartedLate"
  unfolding pumpStartedLate_def
  by (rule reachable.step [OF closedBeforeAdd_reachable], rule step.handleTrack_go)
    (simp_all add: closedBeforeAdd_fields)

lemma latePumpLeaves_fields:
  "crashed latePumpLeaves = None" "trackEventsChClosed latePumpLeaves"
  "trackEventsCh latePumpLeaves =
     [\<lparr>EventTrackInfo = remoteInfo, EventType = TrackEventTypeAdd\<rparr>]"
  "goroutines latePumpLeaves = [ReceiveExit remoteInfo 5 10]"
  by (simp_all add: latePumpLeaves_def run_fields pumpStartedLate_fields)

lemma latePumpLeaves_reachable: "reachable latePumpLeaves"
  unfolding latePumpLeaves_def
  by (rule reachable.step [OF pumpStartedLate_reachable], rule step.receiveRead)
    (simp_all add: pumpStartedLate_fields)

lemma latePumpPanics_fields:
  "crashed latePumpPanics = Some SendOnClosedChannel"
  "trackEventsCh latePumpPanics =
     [\<lparr>EventTrackInfo = remoteInfo, EventType = TrackEventTypeAdd\<rparr>]"
  "goroutines latePumpPanics = [ReceiveExit remoteInfo 5 10]"
  by (simp_all add: latePumpPanics_def run_fields latePumpLeaves_fields)

lemma latePumpPanics_reachable: "reachable latePumpPanics"
  unfolding latePumpPanics_def
  by (rule reachable.step [OF latePumpLeaves_reachable], rule step.receiveDeferred)
    (simp_all add: latePumpLeaves_fields)

subsection \<open>The callback with no other goroutine in between\<close>

text \<open>
  Run alone on a transport that has not crashed, \<open>handleTrack\<close> is its three parts one
  after the other: on an open channel it publishes the event of addition and then starts
  the pump; on a closed channel it panics at its send and starts no pump.
\<close>

lemma handleTrack_alone:
  assumes "crashed p = None"
  shows "handleTrack eng p t r s =
           (if trackEventsChClosed p
            then handleTrack_send (handleTrack_register eng p t r s)
                   (handleTrack_trackInfo eng t) t s
            else handleTrack_go
                   (handleTrack_send (handleTrack_register eng p t r s)
                      (handleTrack_trackInfo eng t) t s)
                   (handleTrack_trackInfo eng t) t s)"
    and "trackEventsCh (handleTrack eng p t r s) =
           (if trackEventsChClosed p then trackEventsCh p
            else trackEventsCh p @
                   [\<lparr>EventTrackInfo = handleTrack_trackInfo eng t,
                     EventType = TrackEventTypeAdd\<rparr>])"
    and "goroutines (handleTrack eng p t r s) =
           (if trackEventsChClosed p then goroutines p
            else goroutines p @ [ReceivePump (handleTrack_trackInfo eng t) t s])"
    and "crashed (handleTrack eng p t r s) =
           (if trackEventsChClosed p then Some SendOnClosedChannel else None)"
  using assms
  by (simp_all add: handleTrack_def Let_def handleTrack_register_fields
      handleTrack_send_fields handleTrack_go_fields)

subsection \<open>Closing the channels\<close>

text \<open>
  C1. The channels are to be closed only after every goroutine that can publish on them
  has returned, so that no send meets a closed channel, also for pumps started after the
  transport was made. The shutdown goroutine waits for the wait group only, and
  \<open>handleTrack\<close> sends the event of addition (line 519) before it adds one to the wait
  group (line 524). Two runs show what follows. In the first the channels are closed,
  the transport not having crashed, while a call of \<open>handleTrack\<close> stands at its send,
  and the send then panics. In the second the channels are closed after the send of the
  call and before its \<open>wg.Add(1)\<close>: the receive pump is started on closed channels,
  and the send of its deferred function panics.
\<close>

theorem channels_closed_under_publishers:
  "reachable closedUnderCallback \<and>
   crashed closedUnderCallback = None \<and>
   trackEventsChClosed closedUnderCallback \<and>
   callbacks closedUnderCallback = [HandleTrackSend remoteInfo 5 10] \<and>
   reachable sendPanics \<and>
   crashed sendPanics = Some SendOnClosedChannel \<and>
   reachable pumpStartedLate \<and>
   crashed pumpStartedLate = None \<and>
   rtpChClosed pumpStartedLate \<and>
   trackEventsChClosed pumpStartedLate \<and>
   goroutines pumpStartedLate = [ReceivePump remoteInfo 5 10] \<and>
   reachable latePumpPanics \<and>
   crashed latePumpPanics = Some SendOnClosedChannel"
  by (simp add: closedUnderCallback_reachable closedUnderCallback_fields
      sendPanics_reachable sendPanics_fields pumpStartedLate_reachable
      pumpStartedLate_fields latePumpPanics_reachable latePumpPanics_fields)

subsection \<open>The events of a remote track\<close>

text \<open>
  C7. Every remote track that the engine delivers is to have exactly one event of
  addition, published before its pump reads, and exactly one event of removal, published
  after the loop of its pump is left. In the two runs of a close that meets
  \<open>handleTrack\<close> this is lost. In the first the track 2002 is delivered and
  registered, the send of line 519 panics, and the transport has crashed with no event
  published: the track has no event of addition, and nothing moves any more. In the
  second the event of addition is published and the loop of the pump is left, the send of
  line 529 panics, and the transport has crashed with the pump still at that send: the
  track has no event of removal.
\<close>

theorem remote_track_events_lost:
  "reachable sendPanics \<and>
   remoteTracks sendPanics 2002 \<noteq> None \<and>
   trackEventsCh sendPanics = [] \<and>
   crashed sendPanics = Some SendOnClosedChannel \<and>
   (\<forall>p'. \<not> step sendPanics p') \<and>
   reachable latePumpPanics \<and>
   trackEventsCh latePumpPanics =
     [\<lparr>EventTrackInfo = remoteInfo, EventType = TrackEventTypeAdd\<rparr>] \<and>
   goroutines latePumpPanics = [ReceiveExit remoteInfo 5 10] \<and>
   crashed latePumpPanics = Some SendOnClosedChannel \<and>
   (\<forall>p'. \<not> step latePumpPanics p')"
proof -
  have "\<not> step sendPanics p'" "\<not> step latePumpPanics p'" for p'
    by (rule crashed_no_step, simp add: sendPanics_fields latePumpPanics_fields)+
  then show ?thesis
    by (simp add: sendPanics_reachable sendPanics_fields latePumpPanics_reachable
        latePumpPanics_fields)
qed

subsection \<open>The media line identifier\<close>

lemma rangeLocalTracks_entries:
  assumes "rangeLocalTracks eng m keys acc = Inr list" and "ti \<in> set list"
  shows "ti \<in> set acc \<or>
         (\<exists>k lti tr. m k = Some lti \<and> localTrackInfo.transceiver lti = Some tr \<and>
            ti = (localTrackInfo.trackInfo lti)\<lparr>Mid := Transceiver_Mid eng tr\<rparr>)"
  using assms
proof (induction keys arbitrary: acc)
  case Nil
  then show ?case by simp
next
  case (Cons k keys)
  show ?case
  proof (cases "m k")
    case None
    with Cons show ?thesis by simp
  next
    case (Some lti)
    show ?thesis
    proof (cases "localTrackInfo.transceiver lti")
      case None
      with Some Cons.prems show ?thesis by simp
    next
      case (Some tr)
      with \<open>m k = Some lti\<close> Cons.prems
      have "rangeLocalTracks eng m keys
              (acc @ [(localTrackInfo.trackInfo lti)\<lparr>Mid := Transceiver_Mid eng tr\<rparr>]) = Inr list"
        by simp
      from Cons.IH [OF this Cons.prems(2)] Some \<open>m k = Some lti\<close> show ?thesis
        by auto
    qed
  qed
qed

lemma rangeRemoteTracks_entries:
  assumes "rangeRemoteTracks eng m keys acc = Inr list" and "ti \<in> set list"
  shows "ti \<in> set acc \<or>
         (\<exists>k rti tr. m k = Some rti \<and> remoteTrackInfo.transceiver rti = Some tr \<and>
            ti = (remoteTrackInfo.trackInfo rti)\<lparr>Mid := Transceiver_Mid eng tr\<rparr>)"
  using assms
proof (induction keys arbitrary: acc)
  case Nil
  then show ?case by simp
next
  case (Cons k keys)
  show ?case
  proof (cases "m k")
    case None
    with Cons show ?thesis by simp
  next
    case (Some rti)
    show ?thesis
    proof (cases "remoteTrackInfo.transceiver rti")
      case None
      with Some Cons.prems show ?thesis by simp
    next
      case (Some tr)
      with \<open>m k = Some rti\<close> Cons.prems
      have "rangeRemoteTracks eng m keys
              (acc @ [(remoteTrackInfo.trackInfo rti)\<lparr>Mid := Transceiver_Mid eng tr\<rparr>]) = Inr list"
        by simp
      from Cons.IH [OF this Cons.prems(2)] Some \<open>m k = Some rti\<close> show ?thesis
        by auto
    qed
  qed
qed

text \<open>
  C9. In every run of a transport every event published on the channel of track events,
  added or removed, has the empty \<open>Mid\<close>. The entries that \<open>LocalTracks\<close> and
  \<open>RemoteTracks\<close> return are the track infos of the registry with \<open>Mid\<close> set to what
  \<open>Mid()\<close> of the transceiver of the entry answers at the time of the call.
\<close>

theorem events_carry_no_mid:
  assumes "reachable p"
  shows "(\<forall>ev\<in>set (trackEventsCh p). Mid (EventTrackInfo ev) = '''') \<and>
         (\<forall>list. LocalTracks eng p keys = Inr list \<longrightarrow>
            (\<forall>ti\<in>set list. \<exists>k lti tr.
               localTracks p k = Some lti \<and> localTrackInfo.transceiver lti = Some tr \<and>
               ti = (localTrackInfo.trackInfo lti)\<lparr>Mid := Transceiver_Mid eng tr\<rparr>)) \<and>
         (\<forall>list. RemoteTracks eng p keys = Inr list \<longrightarrow>
            (\<forall>ti\<in>set list. \<exists>k rti tr.
               remoteTracks p k = Some rti \<and> remoteTrackInfo.transceiver rti = Some tr \<and>
               ti = (remoteTrackInfo.trackInfo rti)\<lparr>Mid := Transceiver_Mid eng tr\<rparr>))"
proof -
  have "\<forall>ev\<in>set (trackEventsCh p). Mid (EventTrackInfo ev) = ''''"
    using reachable_no_mid [OF assms] by simp
  moreover have "\<exists>k lti tr.
       localTracks p k = Some lti \<and> localTrackInfo.transceiver lti = Some tr \<and>
       ti = (localTrackInfo.trackInfo lti)\<lparr>Mid := Transceiver_Mid eng tr\<rparr>"
    if "LocalTracks eng p keys = Inr list" "ti \<in> set list" for list ti
    using rangeLocalTracks_entries [of eng "localTracks p" keys "[]" list ti] that
    by (simp add: LocalTracks_def)
  moreover have "\<exists>k rti tr.
       remoteTracks p k = Some rti \<and> remoteTrackInfo.transceiver rti = Some tr \<and>
       ti = (remoteTrackInfo.trackInfo rti)\<lparr>Mid := Transceiver_Mid eng tr\<rparr>"
    if "RemoteTracks eng p keys = Inr list" "ti \<in> set list" for list ti
    using rangeRemoteTracks_entries [of eng "remoteTracks p" keys "[]" list ti] that
    by (simp add: RemoteTracks_def)
  ultimately show ?thesis by blast
qed

theorem events_carry_no_mid_witness:
  "reachable trackEnded \<and>
   map (\<lambda>ev. Mid (EventTrackInfo ev)) (trackEventsCh trackEnded) = ['''', ''''] \<and>
   LocalTracks simEngine trackEnded [1001] =
     Inr [\<lparr>TrackInfo.SSRC = 1001, ID = ''v0'', StreamID = ''s0'', Kind = RTPCodecTypeVideo,
           Mid = ''0''\<rparr>]"
  using events_carry_no_mid [OF trackEnded_reachable, of simEngine "[1001]"]
    trackEnded_reachable
  by (simp add: trackEnded_channels LocalTracks_def trackEnded_localTracks oneTrack_localTracks
      simEngine_def remoteInfo_def)

subsection \<open>Adding a local track and listing\<close>

lemma distinct_singleton_set:
  assumes "distinct keys" and "set keys = {k}"
  shows "keys = [k]"
proof (cases keys)
  case Nil
  with assms show ?thesis by simp
next
  case (Cons a rest)
  with assms have "a = k" by auto
  moreover from Cons assms have "set rest \<subseteq> {k}" "a \<notin> set rest" by auto
  ultimately have "rest = []" by (cases rest) auto
  with Cons \<open>a = k\<close> show ?thesis by simp
qed

lemma find_Some_ex: "\<exists>x\<in>set xs. P x \<Longrightarrow> \<exists>x. find P xs = Some x"
  by (induction xs) auto

text \<open>
  C5. The registry of local tracks is empty; the engine creates the track and registers
  it as a sender, so that \<open>AddTrack\<close> returns nil; the track answers with the id and the
  stream id it was created with, and a transceiver of the engine has the new sender.
  Then \<open>LocalTracks\<close>, in whatever order it visits the keys of the registry and whatever
  the engine answers for \<open>Mid()\<close>, returns exactly one entry, whose SSRC, id and stream
  id are the arguments of \<open>AddTrack\<close>.
\<close>

theorem add_then_list:
  assumes "localTracks p = Map.empty"
    and "NewTrackLocalStaticRTP eng MimeTypeVP8 id' streamId = Inr t"
    and "PeerConnection_AddTrack eng t = Inr s"
    and "TrackLocal_ID eng t = id'"
    and "TrackLocal_StreamID eng t = streamId"
    and "\<exists>tr\<in>set (PeerConnection_GetTransceivers eng). Transceiver_Sender eng tr = Some s"
    and "distinct keys"
    and "set keys = dom (localTracks (fst (AddTrack eng p ssrc id' streamId)))"
  shows "snd (AddTrack eng p ssrc id' streamId) = None \<and>
         (\<exists>mid. LocalTracks eng' (fst (AddTrack eng p ssrc id' streamId)) keys =
            Inr [\<lparr>TrackInfo.SSRC = ssrc, ID = id', StreamID = streamId,
                  Kind = TrackLocal_Kind eng t, Mid = mid\<rparr>])"
proof -
  from find_Some_ex [OF assms(6)] obtain tr where
    tr: "find (\<lambda>tr. Transceiver_Sender eng tr = Some s) (PeerConnection_GetTransceivers eng) =
           Some tr" ..
  have ok: "snd (AddTrack eng p ssrc id' streamId) = None"
    using assms(2,3) by (simp add: AddTrack_def Let_def)
  have reg: "localTracks (fst (AddTrack eng p ssrc id' streamId)) =
      [ssrc \<mapsto> \<lparr>localTrackInfo.trackInfo =
                   \<lparr>TrackInfo.SSRC = ssrc, ID = id', StreamID = streamId,
                    Kind = TrackLocal_Kind eng t, Mid = ''''\<rparr>,
                 localTrackInfo.transceiver = Some tr, sender = s,
                 localTrackInfo.track = t\<rparr>]"
    using assms(1-5) tr by (simp add: AddTrack_def Let_def)
  from assms(8) have "set keys = {ssrc}"
    by (simp add: reg)
  with assms(7) have "keys = [ssrc]"
    by (rule distinct_singleton_set)
  with reg have "LocalTracks eng' (fst (AddTrack eng p ssrc id' streamId)) keys =
      Inr [\<lparr>TrackInfo.SSRC = ssrc, ID = id', StreamID = streamId,
            Kind = TrackLocal_Kind eng t, Mid = Transceiver_Mid eng' tr\<rparr>]"
    by (simp add: LocalTracks_def)
  with ok show ?thesis by blast
qed

theorem add_then_list_witness:
  "localTracks newTransport = Map.empty \<and>
   snd (AddTrack simEngine newTransport 1001 ''v0'' ''s0'') = None \<and>
   dom (localTracks oneTrack) = set [1001] \<and>
   LocalTracks simEngine oneTrack [1001] =
     Inr [\<lparr>TrackInfo.SSRC = 1001, ID = ''v0'', StreamID = ''s0'', Kind = RTPCodecTypeVideo,
           Mid = ''0''\<rparr>]"
proof -
  have empty: "localTracks newTransport = Map.empty"
    by (simp add: newTransport_def)
  have created: "NewTrackLocalStaticRTP simEngine MimeTypeVP8 ''v0'' ''s0'' = Inr 1"
    and registered: "PeerConnection_AddTrack simEngine 1 = Inr 2"
    and ids: "TrackLocal_ID simEngine 1 = ''v0''" "TrackLocal_StreamID simEngine 1 = ''s0''"
    and listed: "\<exists>tr\<in>set (PeerConnection_GetTransceivers simEngine).
                   Transceiver_Sender simEngine tr = Some 2"
    by (simp_all add: simEngine_def)
  have keys: "distinct [1001 :: uint32]"
    "set [1001] = dom (localTracks (fst (AddTrack simEngine newTransport 1001 ''v0'' ''s0'')))"
    by (simp_all add: oneTrack_def [symmetric] oneTrack_localTracks)
  show ?thesis
    using add_then_list [OF empty created registered ids listed keys, of simEngine] empty
    by (auto simp: oneTrack_def [symmetric] oneTrack_localTracks LocalTracks_def simEngine_def)
qed

end
